theory Spec2Isabelle
  imports Main
begin

section \<open>The TCP log writer (src/src/TCP.cc)\<close>

text \<open>
  The writer is one C++ object whose methods call the socket API and OpenSSL. The model
  threads one record through every method: the members of the object, and next to them
  the part of the process the methods act on (which descriptors and OpenSSL objects are
  allocated, what was reported, what was handed to the transport). What the outside
  world answers to each call (does the peer accept, does the handshake succeed, how many
  bytes does the kernel take) is not decided by the program; it is an argument of the
  model, the \<open>answers\<close> record.
\<close>

subsection \<open>Pointers, resources, observable events\<close>

text \<open>
  A pointer member of the object is either never assigned (the constructor leaves
  \<open>ctx\<close> and \<open>ssl\<close> out of its initialiser list), null, or the address of an object
  that was allocated at some point. Addresses are drawn from a counter, so two
  allocations never return the same one.
\<close>

datatype ptr = Indeterminate | Null | Ptr nat

datatype resource =
    Fd nat            \<comment> \<open>an open socket descriptor\<close>
  | Addrinfo nat      \<comment> \<open>the list returned by getaddrinfo\<close>
  | Ssl_ctx nat       \<comment> \<open>SSL_CTX\<close>
  | Ssl_session nat   \<comment> \<open>SSL\<close>
  | X509 nat          \<comment> \<open>the peer certificate handle\<close>
  | Json nat          \<comment> \<open>the formatter created by DoInit\<close>

text \<open>
  A fault is an action whose behaviour C++ leaves undefined. The model records it and
  goes on with the answers it is given; after a fault the real program may do anything.
\<close>

datatype fault =
    Release_dead resource   \<comment> \<open>freeing an object that is not allocated (any more)\<close>
  | Use_dead resource       \<comment> \<open>using an object that is not allocated (any more)\<close>
  | Use_null
  | Use_indeterminate       \<comment> \<open>using or freeing through a pointer that was never assigned\<close>

datatype event =
    Warning string                \<comment> \<open>Warning(msg) of the reporting sink\<close>
  | Error string                  \<comment> \<open>Error(msg) of the reporting sink\<close>
  | Getaddrinfo string int        \<comment> \<open>getaddrinfo(host, port): one per connection attempt\<close>
  | Send int string int           \<comment> \<open>send(fd, bytes, length bytes, 0) and its return value\<close>
  | SSL_write ptr string int      \<comment> \<open>SSL_write(ssl, bytes, length bytes) and its return value\<close>

definition LF :: char where
  "LF = CHR 0x0A"

record writer =
  \<comment> \<open>members of class TCP\<close>
  ssl_init :: bool
  sock :: int
  host :: string
  tcpport :: int
  retry :: bool
  tls :: bool
  cert :: string
  key :: string
  ctx :: ptr
  ssl :: ptr
  formatter :: ptr
  buffer :: string
  \<comment> \<open>the process: allocated resources, next address, what was observed, faults\<close>
  live :: "resource list"
  fresh :: nat
  trace :: "event list"
  faults :: "fault list"

text \<open>
  The answers of the outside world during one run of DoLoad. Every call is made at most
  once per run, so one value per call is enough. \<open>socket_ok = False\<close> stands for
  socket() returning -1, \<open>ssl_ctx_new_ok = False\<close> and \<open>ssl_new_ok = False\<close> for a null
  result, \<open>peer_present = False\<close> for SSL_get_peer_certificate returning null.
\<close>

record answers =
  getaddrinfo_ret :: int
  socket_ok :: bool
  connect_ret :: int
  ssl_ctx_new_ok :: bool
  set_default_verify_paths_ret :: int
  load_verify_locations_ret :: int
  ssl_new_ok :: bool
  set_tlsext_host_name_ret :: int
  set_fd_ret :: int
  ssl_connect_ret :: int
  peer_present :: bool
  verify_result :: int
  key_write_ret :: int
  strerror_errno :: string                      \<comment> \<open>strerror(errno)\<close>
  addrstr :: string                             \<comment> \<open>what inet_ntop writes\<close>
  tls_reason :: string                          \<comment> \<open>ERR_reason_error_string(...)\<close>
  verify_cert_error_string :: "int \<Rightarrow> string"    \<comment> \<open>X509_verify_cert_error_string\<close>

definition X509_V_OK :: int where
  "X509_V_OK = 0"

subsection \<open>The calls into the process\<close>

definition emit :: "event \<Rightarrow> writer \<Rightarrow> writer" where
  "emit e s = s\<lparr>trace := trace s @ [e]\<rparr>"

definition raise_fault :: "fault \<Rightarrow> writer \<Rightarrow> writer" where
  "raise_fault f s = s\<lparr>faults := faults s @ [f]\<rparr>"

definition acquire :: "(nat \<Rightarrow> resource) \<Rightarrow> writer \<Rightarrow> nat \<times> writer" where
  "acquire K s = (fresh s, s\<lparr>live := K (fresh s) # live s, fresh := Suc (fresh s)\<rparr>)"

definition release :: "(nat \<Rightarrow> resource) \<Rightarrow> ptr \<Rightarrow> writer \<Rightarrow> writer" where
  "release K p s =
     (case p of
        Ptr n \<Rightarrow> if K n \<in> set (live s) then s\<lparr>live := remove1 (K n) (live s)\<rparr>
                 else raise_fault (Release_dead (K n)) s
      | Null \<Rightarrow> s
      | Indeterminate \<Rightarrow> raise_fault Use_indeterminate s)"

definition deref :: "(nat \<Rightarrow> resource) \<Rightarrow> ptr \<Rightarrow> writer \<Rightarrow> writer" where
  "deref K p s =
     (case p of
        Ptr n \<Rightarrow> if K n \<in> set (live s) then s else raise_fault (Use_dead (K n)) s
      | Null \<Rightarrow> raise_fault Use_null s
      | Indeterminate \<Rightarrow> raise_fault Use_indeterminate s)"

definition freeaddrinfo :: "ptr \<Rightarrow> writer \<Rightarrow> writer" where
  "freeaddrinfo p s = release Addrinfo p s"

definition SSL_shutdown :: "ptr \<Rightarrow> writer \<Rightarrow> writer" where
  "SSL_shutdown p s = deref Ssl_session p s"

definition SSL_free :: "ptr \<Rightarrow> writer \<Rightarrow> writer" where
  "SSL_free p s = release Ssl_session p s"

definition SSL_CTX_free :: "ptr \<Rightarrow> writer \<Rightarrow> writer" where
  "SSL_CTX_free p s = release Ssl_ctx p s"

definition X509_free :: "ptr \<Rightarrow> writer \<Rightarrow> writer" where
  "X509_free p s = release X509 p s"

text \<open>
  close(fd) on a value that is not an open descriptor (such as -1) fails with EBADF and
  changes nothing; the writer never looks at the result of close.
\<close>

definition sys_close :: "int \<Rightarrow> writer \<Rightarrow> writer" where
  "sys_close fd s =
     (if 0 \<le> fd \<and> Fd (nat fd) \<in> set (live s)
      then s\<lparr>live := remove1 (Fd (nat fd)) (live s)\<rparr> else s)"

subsection \<open>TCP::TCP and TCP::GetConfigValue\<close>

text \<open>
  The constructor copies the six script-level constants (BifConst::LogTCP) into the
  object and sets \<open>sock\<close> to -1. Descriptors 0 to 2 belong to the process, so
  addresses start at 3.
\<close>

definition TCP :: "string \<Rightarrow> int \<Rightarrow> bool \<Rightarrow> bool \<Rightarrow> string \<Rightarrow> string \<Rightarrow> writer" where
  "TCP bif_host bif_tcpport bif_retry bif_tls bif_cert bif_key =
     \<lparr>ssl_init = False, sock = -1, host = bif_host, tcpport = bif_tcpport,
      retry = bif_retry, tls = bif_tls, cert = bif_cert, key = bif_key,
      ctx = Indeterminate, ssl = Indeterminate, formatter = Indeterminate, buffer = [],
      live = [], fresh = 3, trace = [], faults = []\<rparr>"

definition GetConfigValue :: "(string \<rightharpoonup> string) \<Rightarrow> string \<Rightarrow> string" where
  "GetConfigValue config name = (case config name of None \<Rightarrow> [] | Some v \<Rightarrow> v)"

subsection \<open>TCP::DoLoad\<close>

text \<open>Lines 91 to 221 of DoLoad: the block under \<open>if (tls)\<close>, entered with a connected socket.\<close>

definition DoLoad_tls :: "answers \<Rightarrow> writer \<Rightarrow> writer \<times> bool" where
  "DoLoad_tls ora s0 =
    (let s1 = (if \<not> ssl_init s0 then s0\<lparr>ssl_init := True\<rparr> else s0) in
     if \<not> ssl_ctx_new_ok ora then
       (let s2 = s1\<lparr>ctx := Null\<rparr>;
            s3 = emit (Error (''Error setting up TLS context: '' @ tls_reason ora)) s2;
            s4 = sys_close (sock s3) s3
        in (s4\<lparr>sock := - 1\<rparr>, False))
     else
       let (c, s2) = acquire Ssl_ctx s1;
           s3 = s2\<lparr>ctx := Ptr c\<rparr>
       in
       if cert s3 = [] \<and> set_default_verify_paths_ret ora \<le> 0 then
         (let s4 = emit (Error (''Error loading default certificate paths: '' @ tls_reason ora)) s3;
              s5 = SSL_CTX_free (ctx s4) s4;
              s6 = sys_close (sock s5) s5
          in (s6\<lparr>sock := - 1\<rparr>, False))
       else if cert s3 \<noteq> [] \<and> load_verify_locations_ret ora \<le> 0 then
         (let s4 = emit (Error (''Error using TLS certificate: '' @ tls_reason ora)) s3;
              s5 = SSL_CTX_free (ctx s4) s4;
              s6 = sys_close (sock s5) s5
          in (s6\<lparr>sock := - 1\<rparr>, False))
       else if \<not> ssl_new_ok ora then
         (let s4 = s3\<lparr>ssl := Null\<rparr>;
              s5 = emit (Error (''Error setting up TLS structure: '' @ tls_reason ora)) s4;
              s6 = SSL_CTX_free (ctx s5) s5;
              s7 = sys_close (sock s6) s6
          in (s7\<lparr>sock := - 1\<rparr>, False))
       else
         let (n, s4) = acquire Ssl_session s3;
             s5 = s4\<lparr>ssl := Ptr n\<rparr>
         in
         if set_tlsext_host_name_ret ora \<noteq> 1 then
           (let s6 = emit (Error (''Error setting TLS descriptor: '' @ tls_reason ora)) s5;
                s7 = SSL_free (ssl s6) s6;
                s8 = SSL_CTX_free (ctx s7) s7;
                s9 = sys_close (sock s8) s8
            in (s9\<lparr>sock := - 1\<rparr>, False))
         else if set_fd_ret ora \<noteq> 1 then
           (let s6 = emit (Error (''Error setting TLS descriptor: '' @ tls_reason ora)) s5;
                s7 = SSL_free (ssl s6) s6;
                s8 = SSL_CTX_free (ctx s7) s7;
                s9 = sys_close (sock s8) s8
            in (s9\<lparr>sock := - 1\<rparr>, False))
         else if ssl_connect_ret ora \<noteq> 1 then
           (let s6 = emit (Error (''Error completing TLS handshake: '' @ tls_reason ora)) s5;
                s7 = SSL_free (ssl s6) s6;
                s8 = SSL_CTX_free (ctx s7) s7;
                s9 = sys_close (sock s8) s8
            in (s9\<lparr>sock := - 1\<rparr>, False))
         else if \<not> peer_present ora then
           (let s6 = emit (Error ''Error getting TLS certificate'') s5;
                s7 = SSL_shutdown (ssl s6) s6;
                s8 = SSL_free (ssl s7) s7;
                s9 = SSL_CTX_free (ctx s8) s8;
                s10 = sys_close (sock s9) s9
            in (s10\<lparr>sock := - 1\<rparr>, False))
         else
           let (p, s6) = acquire X509 s5;
               peer = Ptr p;
               lret = verify_result ora
           in
           if lret \<noteq> X509_V_OK then
             (let s7 = emit (Error (''Error verifying TLS certificate: ''
                                      @ verify_cert_error_string ora lret)) s6;
                  s8 = X509_free peer s7;
                  s9 = SSL_shutdown (ssl s8) s8;
                  s10 = SSL_free (ssl s9) s9;
                  s11 = SSL_CTX_free (ctx s10) s10;
                  s12 = sys_close (sock s11) s11
              in (s12\<lparr>sock := - 1\<rparr>, False))
           else (X509_free peer s6, True))"

text \<open>
  Lines 223 to 251 of DoLoad: the pre-shared key. The TLS branch writes
  \<open>(key + "\n").c_str()\<close> with length \<open>key.size() + 1\<close>; the plain branch sends
  \<open>key.c_str()\<close> with length \<open>key.size()\<close>.
\<close>

definition DoLoad_key :: "answers \<Rightarrow> writer \<Rightarrow> writer \<times> bool" where
  "DoLoad_key ora s0 =
    (if key s0 \<noteq> [] then
       if tls s0 then
         (let s1 = deref Ssl_session (ssl s0) s0;
              s2 = emit (SSL_write (ssl s1) (key s1 @ [LF]) (key_write_ret ora)) s1
          in if key_write_ret ora < 0 then
               (let s3 = emit (Error (''Error sending TLS data: '' @ tls_reason ora)) s2;
                    s4 = SSL_shutdown (ssl s3) s3;
                    s5 = SSL_free (ssl s4) s4;
                    s6 = SSL_CTX_free (ctx s5) s5;
                    s7 = sys_close (sock s6) s6
                in (s7\<lparr>sock := - 1\<rparr>, False))
             else (s2, True))
       else
         (let s1 = emit (Send (sock s0) (key s0) (key_write_ret ora)) s0
          in if key_write_ret ora < 0 then
               (let s2 = emit (Error (''Error sending data: '' @ strerror_errno ora)) s1;
                    s3 = sys_close (sock s2) s2
                in (s3\<lparr>sock := - 1\<rparr>, False))
             else (s1, True))
     else (s0, True))"

text \<open>
  Lines 42 to 89 of DoLoad: resolve, open the socket, connect. The result is \<open>Some b\<close>
  when DoLoad returns \<open>b\<close> from within these lines and \<open>None\<close> when it goes on.
  getaddrinfo assigns \<open>addr\<close> only when it returns 0; the failure branch is taken only
  for a positive return value, so that with a negative one the code goes on and reads
  through the unassigned \<open>addr\<close>.
\<close>

definition DoLoad_connect :: "answers \<Rightarrow> bool \<Rightarrow> writer \<Rightarrow> writer \<times> bool option" where
  "DoLoad_connect ora is_retry s0 =
    (let s1 = emit (Getaddrinfo (host s0) (tcpport s0)) s0;
         (addr, s2) = (if getaddrinfo_ret ora = 0
                       then (let (a, t) = acquire Addrinfo s1 in (Ptr a, t))
                       else (Indeterminate, s1))
     in
     if 0 < getaddrinfo_ret ora then
       (let s3 = emit (Error (''Error resolving '' @ host s2 @ '': '' @ strerror_errno ora)) s2
        in (freeaddrinfo addr s3, Some False))
     else
       let s3 = deref Addrinfo addr s2 in
       if \<not> socket_ok ora then
         (let s4 = s3\<lparr>sock := - 1\<rparr>;
              s5 = emit (Error (''Error opening socket: '' @ strerror_errno ora)) s4
          in (freeaddrinfo addr s5, Some False))
       else
         let (fd, s4) = acquire Fd s3;
             s5 = s4\<lparr>sock := int fd\<rparr>
         in
         if connect_ret ora < 0 then
           (let s6 = (if retry s5 then
                        (if \<not> is_retry
                         then emit (Warning (''Error connecting to '' @ addrstr ora @ '': ''
                                              @ strerror_errno ora)) s5
                         else s5)
                      else emit (Error (''Error connecting to '' @ addrstr ora @ '': ''
                                          @ strerror_errno ora)) s5);
                s7 = freeaddrinfo addr s6;
                s8 = sys_close (sock s7) s7
            in (s8\<lparr>sock := - 1\<rparr>, Some (retry s8)))
         else (freeaddrinfo addr s5, None))"

text \<open>DoLoad itself, lines 37 to 254: the three parts in the order of the source.\<close>

definition DoLoad :: "answers \<Rightarrow> bool \<Rightarrow> writer \<Rightarrow> writer \<times> bool" where
  "DoLoad ora is_retry s0 =
    (case DoLoad_connect ora is_retry s0 of
       (s1, Some b) \<Rightarrow> (s1, b)
     | (s1, None) \<Rightarrow>
         let (s2, ok) = (if tls s1 then DoLoad_tls ora s1 else (s1, True))
         in if \<not> ok then (s2, False) else DoLoad_key ora s2)"

text \<open>
  Modelled from the spec: the default value of the parameter \<open>is_retry\<close> of DoLoad. It
  is declared in TCP.h, which is not among the sources; DoInit and the send-failure
  branches of DoWrite call \<open>DoLoad()\<close> without an argument. The spec says that
  Initialize performs the initial Establish "not flagged as retry", and that a failed
  write-triggered reconnect "is not distinguished from the very first connect for
  warning purposes".
\<close>

definition DoLoad_default_is_retry :: bool where
  "DoLoad_default_is_retry = False"

subsection \<open>TCP::DoUnload\<close>

definition DoUnload :: "writer \<Rightarrow> writer \<times> bool" where
  "DoUnload s0 =
    (let s1 = (if tls s0 then
                 (let t1 = SSL_shutdown (ssl s0) s0;
                      t2 = SSL_free (ssl t1) t1
                  in SSL_CTX_free (ctx t2) t2)
               else s0);
         s2 = sys_close (sock s1) s1
     in (s2\<lparr>sock := - 1\<rparr>, True))"

subsection \<open>std::stoi\<close>

text \<open>
  \<open>std::stoi(str)\<close> runs strtol in base 10: it skips leading white space, reads an
  optional sign and the longest run of digits, and ignores what follows. It throws
  \<open>std::invalid_argument\<close> when there is no digit to read and \<open>std::out_of_range\<close>
  when the value does not fit an int.
\<close>

datatype exn = Invalid_argument | Out_of_range

definition isspace :: "char \<Rightarrow> bool" where
  "isspace c = (c \<in> set [CHR '' '', CHR 0x09, CHR 0x0A, CHR 0x0B, CHR 0x0C, CHR 0x0D])"

definition isdigit :: "char \<Rightarrow> bool" where
  "isdigit c = (c \<in> set ''0123456789'')"

definition digit_val :: "char \<Rightarrow> int" where
  "digit_val c = int (of_char c) - 48"

definition stoi :: "string \<Rightarrow> exn + int" where
  "stoi str =
    (let t = dropWhile isspace str;
         (neg, u) = (case t of
                       [] \<Rightarrow> (False, t)
                     | c # r \<Rightarrow> if c = CHR ''-'' then (True, r)
                               else if c = CHR ''+'' then (False, r) else (False, t));
         ds = takeWhile isdigit u
     in if ds = [] then Inl Invalid_argument
        else let m = foldl (\<lambda>a c. 10 * a + digit_val c) 0 ds;
                 v = (if neg then - m else m)
             in if v < - 2147483648 \<or> 2147483647 < v then Inl Out_of_range else Inr v)"

subsection \<open>TCP::DoInit and TCP::DoFinish\<close>

text \<open>
  DoInit reads the six overrides, applies the non-empty ones in the order of the source
  (an exception of stoi leaves the method before the formatter is created), creates the
  formatter and returns what DoLoad returns.
\<close>

definition DoInit :: "(string \<rightharpoonup> string) \<Rightarrow> answers \<Rightarrow> writer \<Rightarrow> exn + (writer \<times> bool)" where
  "DoInit config ora s0 =
    (let cfg_host = GetConfigValue config ''host'';
         cfg_tcpport = GetConfigValue config ''tcpport'';
         cfg_retry = GetConfigValue config ''retry'';
         cfg_tls = GetConfigValue config ''tls'';
         cfg_cert = GetConfigValue config ''cert'';
         cfg_key = GetConfigValue config ''key'';
         s1 = (if cfg_host \<noteq> [] then s0\<lparr>host := cfg_host\<rparr> else s0)
     in case (if cfg_tcpport \<noteq> [] then stoi cfg_tcpport else Inr (tcpport s1)) of
          Inl e \<Rightarrow> Inl e
        | Inr port \<Rightarrow>
            let s2 = s1\<lparr>tcpport := port\<rparr>;
                s3 = (if cfg_retry \<noteq> [] then s2\<lparr>retry := (cfg_retry = ''T'')\<rparr> else s2);
                s4 = (if cfg_tls \<noteq> [] then s3\<lparr>tls := (cfg_tls = ''T'')\<rparr> else s3);
                s5 = (if cfg_cert \<noteq> [] then s4\<lparr>cert := cfg_cert\<rparr> else s4);
                s6 = (if cfg_key \<noteq> [] then s5\<lparr>key := cfg_key\<rparr> else s5);
                (f, s7) = acquire Json s6;
                s8 = s7\<lparr>formatter := Ptr f\<rparr>
            in Inr (DoLoad ora DoLoad_default_is_retry s8))"

definition DoFinish :: "writer \<Rightarrow> writer \<times> bool" where
  "DoFinish s0 =
    (let (s1, ret) = DoUnload s0;
         s2 = release Json (formatter s1) s1
     in (s2, ret))"

subsection \<open>TCP::DoWrite\<close>

text \<open>
  One call of DoWrite can run DoLoad twice (once because the writer is disconnected, once
  more after the send failed), so it takes the answers for both runs, next to the return
  value of its own send or SSL_write and the error texts for it.
\<close>

record write_answers =
  reconnect :: answers
  write_ret :: int
  write_strerror :: string
  write_tls_reason :: string
  recover :: answers

text \<open>
  Lines 326 to 363: serialise and send. The formatter is external: \<open>describe row\<close> are
  the bytes that \<open>formatter->Describe\<close> appends to the buffer for this record.
\<close>

definition DoWrite_send :: "('row \<Rightarrow> string) \<Rightarrow> write_answers \<Rightarrow> 'row \<Rightarrow> writer \<Rightarrow> writer \<times> bool" where
  "DoWrite_send describe wa row s0 =
    (let s1 = s0\<lparr>buffer := []\<rparr>;
         s2 = deref Json (formatter s1) s1;
         s3 = s2\<lparr>buffer := buffer s2 @ describe row\<rparr>;
         s4 = s3\<lparr>buffer := buffer s3 @ [LF]\<rparr>;
         msg = buffer s4
     in
     if tls s4 then
       (let s5 = deref Ssl_session (ssl s4) s4;
            s6 = emit (SSL_write (ssl s5) msg (write_ret wa)) s5
        in if write_ret wa < 0 then
             if retry s6 then
               (let (s7, u) = DoUnload s6;
                    (s8, l) = DoLoad (recover wa) DoLoad_default_is_retry s7
                in (s8, True))
             else
               (emit (Error (''Error sending TLS data: '' @ write_tls_reason wa)) s6, False)
           else (s6, True))
     else
       (let s5 = emit (Send (sock s4) msg (write_ret wa)) s4
        in if write_ret wa < 0 then
             if retry s5 then
               (let (s6, u) = DoUnload s5;
                    (s7, l) = DoLoad (recover wa) DoLoad_default_is_retry s6
                in (s7, True))
             else
               (emit (Error (''Error sending data: '' @ write_strerror wa)) s5, False)
           else (s5, True)))"

definition DoWrite :: "('row \<Rightarrow> string) \<Rightarrow> write_answers \<Rightarrow> 'row \<Rightarrow> writer \<Rightarrow> writer \<times> bool" where
  "DoWrite describe wa row s0 =
    (if sock s0 < 0 then
       if retry s0 then
         (let (s1, l) = DoLoad (reconnect wa) True s0
          in if sock s1 < 0 then (s1, True) else DoWrite_send describe wa row s1)
       else (s0, False)
     else DoWrite_send describe wa row s0)"

subsection \<open>Reading a trace\<close>

fun is_warning :: "event \<Rightarrow> bool" where
  "is_warning (Warning m) = True"
| "is_warning e = False"

fun is_send :: "event \<Rightarrow> bool" where
  "is_send (Send fd bytes n) = True"
| "is_send e = False"

fun is_transmission :: "event \<Rightarrow> bool" where
  "is_transmission (Send fd bytes n) = True"
| "is_transmission (SSL_write p bytes n) = True"
| "is_transmission e = False"

fun payload :: "event \<Rightarrow> string" where
  "payload (Send fd bytes n) = bytes"
| "payload (SSL_write p bytes n) = bytes"
| "payload e = []"

definition warnings :: "event list \<Rightarrow> event list" where
  "warnings tr = filter is_warning tr"

text \<open>What was handed to the plain socket, outside of any TLS session.\<close>

definition cleartext :: "event list \<Rightarrow> event list" where
  "cleartext tr = filter is_send tr"

definition transmissions :: "event list \<Rightarrow> event list" where
  "transmissions tr = filter is_transmission tr"

text \<open>
  The bytes a plain socket accepted: of each buffer handed to send, the prefix whose
  length send returned (nothing when send failed).
\<close>

fun accepted :: "event \<Rightarrow> string" where
  "accepted (Send fd bytes n) = take (nat n) bytes"
| "accepted e = []"

definition plain_bytes :: "event list \<Rightarrow> string" where
  "plain_bytes tr = concat (map accepted tr)"

text \<open>A sequence of calls of DoWrite, each with its record and the answers it meets.\<close>

fun run_writes :: "('row \<Rightarrow> string) \<Rightarrow> (write_answers \<times> 'row) list \<Rightarrow> writer \<Rightarrow> writer" where
  "run_writes describe [] s = s"
| "run_writes describe (w # ws) s = run_writes describe ws (fst (DoWrite describe (fst w) (snd w) s))"

subsection \<open>Concrete answers and writers\<close>

text \<open>Every call succeeds: the peer listens, the handshake completes, the certificate verifies.\<close>

definition all_ok :: answers where
  "all_ok =
     \<lparr>getaddrinfo_ret = 0, socket_ok = True, connect_ret = 0, ssl_ctx_new_ok = True,
      set_default_verify_paths_ret = 1, load_verify_locations_ret = 1, ssl_new_ok = True,
      set_tlsext_host_name_ret = 1, set_fd_ret = 1, ssl_connect_ret = 1,
      peer_present = True, verify_result = 0, key_write_ret = 7,
      strerror_errno = ''Success'', addrstr = ''127.0.0.1'', tls_reason = ''none'',
      verify_cert_error_string = (\<lambda>n. if n = 18 then ''self signed certificate'' else ''ok'')\<rparr>"

text \<open>Nobody listens on the port: connect returns -1 with ECONNREFUSED.\<close>

definition refused :: answers where
  "refused = all_ok\<lparr>connect_ret := - 1, strerror_errno := ''Connection refused''\<rparr>"

definition secret_writer :: "bool \<Rightarrow> writer" where
  "secret_writer use_tls = TCP ''collector'' 1337 False use_tls [] ''secret''"

text \<open>The peer presents a certificate that does not verify (X509 error 18).\<close>

definition self_signed :: answers where
  "self_signed = all_ok\<lparr>verify_result := 18\<rparr>"

text \<open>The handshake completes and the peer presents no certificate.\<close>

definition no_certificate :: answers where
  "no_certificate = all_ok\<lparr>peer_present := False\<rparr>"

text \<open>The name does not resolve: getaddrinfo returns EAI_NONAME, which is -2 in glibc.\<close>

definition name_not_found :: answers where
  "name_not_found = all_ok\<lparr>getaddrinfo_ret := - 2\<rparr>"

text \<open>The send fails; \<open>a\<close> answers a reconnect before it and \<open>b\<close> the one after it.\<close>

definition broken_pipe :: "answers \<Rightarrow> answers \<Rightarrow> write_answers" where
  "broken_pipe a b =
     \<lparr>reconnect = a, write_ret = - 1, write_strerror = ''Broken pipe'',
      write_tls_reason = ''protocol is shutdown'', recover = b\<rparr>"

text \<open>The transport takes \<open>n\<close> bytes.\<close>

definition taken :: "int \<Rightarrow> write_answers" where
  "taken n =
     \<lparr>reconnect = all_ok, write_ret = n, write_strerror = ''Success'',
      write_tls_reason = ''none'', recover = all_ok\<rparr>"

text \<open>The writer after DoInit without overrides, against the given answers.\<close>

definition initialised :: "answers \<Rightarrow> bool \<Rightarrow> bool \<Rightarrow> writer" where
  "initialised ora use_tls use_retry =
     (case DoInit Map.empty ora (TCP ''collector'' 1337 use_retry use_tls [] []) of
        Inl e \<Rightarrow> TCP ''collector'' 1337 use_retry use_tls [] []
      | Inr (s, b) \<Rightarrow> s)"

text \<open>The send is interrupted by a signal: -1 with EINTR; the connection is intact.\<close>

definition interrupted :: write_answers where
  "interrupted =
     \<lparr>reconnect = all_ok, write_ret = - 1, write_strerror = ''Interrupted system call'',
      write_tls_reason = ''none'', recover = all_ok\<rparr>"

text \<open>
  A plain writer with retry on and the key \<open>secret\<close>, after a DoInit that found nobody
  listening: disconnected, one Warning logged.
\<close>

definition keyed_down :: writer where
  "keyed_down =
     (case DoInit [''retry'' \<mapsto> ''T'', ''key'' \<mapsto> ''secret''] refused
             (TCP ''collector'' 1337 False False [] []) of
        Inl e \<Rightarrow> TCP ''collector'' 1337 False False [] []
      | Inr (s, b) \<Rightarrow> s)"

text \<open>The configuration of the scenario of C1, as the overrides DoInit reads.\<close>

definition c1_config :: "string \<rightharpoonup> string" where
  "c1_config = [''host'' \<mapsto> ''127.0.0.1'', ''tcpport'' \<mapsto> ''9999'', ''retry'' \<mapsto> ''T'',
                ''tls'' \<mapsto> ''F'']"

subsection \<open>Vocabulary of the statements\<close>

text \<open>The host resolves and a socket opens, but connect fails.\<close>

definition no_listener :: "answers \<Rightarrow> bool" where
  "no_listener ora = (getaddrinfo_ret ora = 0 \<and> socket_ok ora \<and> connect_ret ora < 0)"

text \<open>Every step of DoLoad up to and including SSL_connect succeeds.\<close>

definition handshake_completes :: "answers \<Rightarrow> writer \<Rightarrow> bool" where
  "handshake_completes ora s =
     (getaddrinfo_ret ora = 0 \<and> socket_ok ora \<and> 0 \<le> connect_ret ora \<and> ssl_ctx_new_ok ora
      \<and> (if cert s = [] then 0 < set_default_verify_paths_ret ora
         else 0 < load_verify_locations_ret ora)
      \<and> ssl_new_ok ora \<and> set_tlsext_host_name_ret ora = 1 \<and> set_fd_ret ora = 1
      \<and> ssl_connect_ret ora = 1)"

text \<open>The call by which DoWrite hands the record to the transport of writer \<open>s\<close>.\<close>

definition record_event :: "('row \<Rightarrow> string) \<Rightarrow> write_answers \<Rightarrow> 'row \<Rightarrow> writer \<Rightarrow> event" where
  "record_event describe wa row s =
     (if tls s then SSL_write (ssl s) (describe row @ [LF]) (write_ret wa)
      else Send (sock s) (describe row @ [LF]) (write_ret wa))"

text \<open>The report of DoWrite for a failed send when retry is off.\<close>

definition send_error :: "write_answers \<Rightarrow> writer \<Rightarrow> event" where
  "send_error wa s =
     (if tls s then Error (''Error sending TLS data: '' @ write_tls_reason wa)
      else Error (''Error sending data: '' @ write_strerror wa))"

text \<open>A list of resources after the object behind a pointer has been released.\<close>

definition without :: "(nat \<Rightarrow> resource) \<Rightarrow> ptr \<Rightarrow> resource list \<Rightarrow> resource list" where
  "without K p rs = (case p of Ptr n \<Rightarrow> remove1 (K n) rs | _ \<Rightarrow> rs)"

text \<open>The Warning of DoLoad for a failed connect.\<close>

definition connect_warning :: "answers \<Rightarrow> event" where
  "connect_warning ora =
     Warning (''Error connecting to '' @ addrstr ora @ '': '' @ strerror_errno ora)"

text \<open>
  The writer stays disconnected throughout a sequence of calls of DoWrite: the
  reconnection that each call attempts (\<open>DoLoad(true)\<close>) ends without a connection.
\<close>

fun stays_down :: "('row \<Rightarrow> string) \<Rightarrow> (write_answers \<times> 'row) list \<Rightarrow> writer \<Rightarrow> bool" where
  "stays_down describe [] s = True"
| "stays_down describe (w # ws) s =
     (sock (fst (DoLoad (reconnect (fst w)) True s)) < 0
      \<and> stays_down describe ws (fst (DoWrite describe (fst w) (snd w) s)))"

text \<open>
  The number of calls in a sequence of calls of DoWrite during which a connection was up
  (on entry, or made by the call's own reconnection) and the send on it failed.
\<close>

fun lost_connections :: "('row \<Rightarrow> string) \<Rightarrow> (write_answers \<times> 'row) list \<Rightarrow> writer \<Rightarrow> nat" where
  "lost_connections describe [] s = 0"
| "lost_connections describe (w # ws) s =
     (if (0 \<le> sock s \<or> 0 \<le> sock (fst (DoLoad (reconnect (fst w)) True s)))
         \<and> write_ret (fst w) < 0
      then 1 else 0)
     + lost_connections describe ws (fst (DoWrite describe (fst w) (snd w) s))"

section \<open>Basic facts about the calls\<close>

lemmas call_defs = emit_def raise_fault_def acquire_def release_def deref_def freeaddrinfo_def
  SSL_shutdown_def SSL_free_def SSL_CTX_free_def X509_free_def sys_close_def

lemmas wrapper_defs = freeaddrinfo_def SSL_shutdown_def SSL_free_def SSL_CTX_free_def X509_free_def

lemma emit_members [simp]:
  "ssl_init (emit e s) = ssl_init s"
  "sock (emit e s) = sock s"
  "host (emit e s) = host s"
  "tcpport (emit e s) = tcpport s"
  "retry (emit e s) = retry s"
  "tls (emit e s) = tls s"
  "cert (emit e s) = cert s"
  "key (emit e s) = key s"
  "ctx (emit e s) = ctx s"
  "ssl (emit e s) = ssl s"
  "formatter (emit e s) = formatter s"
  "buffer (emit e s) = buffer s"
  by (simp_all add: emit_def)

lemma raise_fault_members [simp]:
  "ssl_init (raise_fault f s) = ssl_init s"
  "sock (raise_fault f s) = sock s"
  "host (raise_fault f s) = host s"
  "tcpport (raise_fault f s) = tcpport s"
  "retry (raise_fault f s) = retry s"
  "tls (raise_fault f s) = tls s"
  "cert (raise_fault f s) = cert s"
  "key (raise_fault f s) = key s"
  "ctx (raise_fault f s) = ctx s"
  "ssl (raise_fault f s) = ssl s"
  "formatter (raise_fault f s) = formatter s"
  "buffer (raise_fault f s) = buffer s"
  by (simp_all add: raise_fault_def)

lemma acquire_members [simp]:
  "ssl_init (snd (acquire K s)) = ssl_init s"
  "sock (snd (acquire K s)) = sock s"
  "host (snd (acquire K s)) = host s"
  "tcpport (snd (acquire K s)) = tcpport s"
  "retry (snd (acquire K s)) = retry s"
  "tls (snd (acquire K s)) = tls s"
  "cert (snd (acquire K s)) = cert s"
  "key (snd (acquire K s)) = key s"
  "ctx (snd (acquire K s)) = ctx s"
  "ssl (snd (acquire K s)) = ssl s"
  "formatter (snd (acquire K s)) = formatter s"
  "buffer (snd (acquire K s)) = buffer s"
  by (simp_all add: acquire_def)

lemma release_members [simp]:
  "ssl_init (release K p s) = ssl_init s"
  "sock (release K p s) = sock s"
  "host (release K p s) = host s"
  "tcpport (release K p s) = tcpport s"
  "retry (release K p s) = retry s"
  "tls (release K p s) = tls s"
  "cert (release K p s) = cert s"
  "key (release K p s) = key s"
  "ctx (release K p s) = ctx s"
  "ssl (release K p s) = ssl s"
  "formatter (release K p s) = formatter s"
  "buffer (release K p s) = buffer s"
  by (simp_all add: release_def raise_fault_def split: ptr.splits)

lemma deref_members [simp]:
  "ssl_init (deref K p s) = ssl_init s"
  "sock (deref K p s) = sock s"
  "host (deref K p s) = host s"
  "tcpport (deref K p s) = tcpport s"
  "retry (deref K p s) = retry s"
  "tls (deref K p s) = tls s"
  "cert (deref K p s) = cert s"
  "key (deref K p s) = key s"
  "ctx (deref K p s) = ctx s"
  "ssl (deref K p s) = ssl s"
  "formatter (deref K p s) = formatter s"
  "buffer (deref K p s) = buffer s"
  by (simp_all add: deref_def raise_fault_def split: ptr.splits)

lemma sys_close_members [simp]:
  "ssl_init (sys_close fd s) = ssl_init s"
  "sock (sys_close fd s) = sock s"
  "host (sys_close fd s) = host s"
  "tcpport (sys_close fd s) = tcpport s"
  "retry (sys_close fd s) = retry s"
  "tls (sys_close fd s) = tls s"
  "cert (sys_close fd s) = cert s"
  "key (sys_close fd s) = key s"
  "ctx (sys_close fd s) = ctx s"
  "ssl (sys_close fd s) = ssl s"
  "formatter (sys_close fd s) = formatter s"
  "buffer (sys_close fd s) = buffer s"
  by (simp_all add: sys_close_def)

lemma acquire_fst [simp]: "fst (acquire K s) = fresh s"
  by (simp add: acquire_def)

lemma live_calls [simp]:
  "live (emit e s) = live s"
  "live (raise_fault f s) = live s"
  "live (snd (acquire K s)) = K (fresh s) # live s"
  "live (release K p s) = (case p of Ptr n \<Rightarrow> remove1 (K n) (live s) | _ \<Rightarrow> live s)"
  "live (deref K p s) = live s"
  "live (sys_close fd s) = (if 0 \<le> fd then remove1 (Fd (nat fd)) (live s) else live s)"
  by (simp_all add: emit_def raise_fault_def acquire_def release_def deref_def sys_close_def
        remove1_idem split: ptr.splits)

lemma fresh_calls [simp]:
  "fresh (emit e s) = fresh s"
  "fresh (raise_fault f s) = fresh s"
  "fresh (snd (acquire K s)) = Suc (fresh s)"
  "fresh (release K p s) = fresh s"
  "fresh (deref K p s) = fresh s"
  "fresh (sys_close fd s) = fresh s"
  by (simp_all add: emit_def raise_fault_def acquire_def release_def deref_def sys_close_def
        split: ptr.splits)

lemma trace_calls [simp]:
  "trace (emit e s) = trace s @ [e]"
  "trace (raise_fault f s) = trace s"
  "trace (snd (acquire K s)) = trace s"
  "trace (release K p s) = trace s"
  "trace (deref K p s) = trace s"
  "trace (sys_close fd s) = trace s"
  by (simp_all add: emit_def raise_fault_def acquire_def release_def deref_def sys_close_def
        split: ptr.splits)

lemma DoLoad_tls_members [simp]:
  "host (fst (DoLoad_tls ora s)) = host s"
  "tcpport (fst (DoLoad_tls ora s)) = tcpport s"
  "retry (fst (DoLoad_tls ora s)) = retry s"
  "tls (fst (DoLoad_tls ora s)) = tls s"
  "cert (fst (DoLoad_tls ora s)) = cert s"
  "key (fst (DoLoad_tls ora s)) = key s"
  "formatter (fst (DoLoad_tls ora s)) = formatter s"
  "buffer (fst (DoLoad_tls ora s)) = buffer s"
  by (simp_all add: DoLoad_tls_def wrapper_defs Let_def split_beta)

lemma DoLoad_key_members [simp]:
  "host (fst (DoLoad_key ora s)) = host s"
  "tcpport (fst (DoLoad_key ora s)) = tcpport s"
  "retry (fst (DoLoad_key ora s)) = retry s"
  "tls (fst (DoLoad_key ora s)) = tls s"
  "cert (fst (DoLoad_key ora s)) = cert s"
  "key (fst (DoLoad_key ora s)) = key s"
  "formatter (fst (DoLoad_key ora s)) = formatter s"
  "buffer (fst (DoLoad_key ora s)) = buffer s"
  by (simp_all add: DoLoad_key_def wrapper_defs Let_def split_beta)

lemma DoLoad_connect_members [simp]:
  "host (fst (DoLoad_connect ora r s)) = host s"
  "tcpport (fst (DoLoad_connect ora r s)) = tcpport s"
  "retry (fst (DoLoad_connect ora r s)) = retry s"
  "tls (fst (DoLoad_connect ora r s)) = tls s"
  "cert (fst (DoLoad_connect ora r s)) = cert s"
  "key (fst (DoLoad_connect ora r s)) = key s"
  "formatter (fst (DoLoad_connect ora r s)) = formatter s"
  "buffer (fst (DoLoad_connect ora r s)) = buffer s"
  by (simp_all add: DoLoad_connect_def wrapper_defs Let_def split_beta)

lemma DoLoad_members [simp]:
  "host (fst (DoLoad ora r s)) = host s"
  "tcpport (fst (DoLoad ora r s)) = tcpport s"
  "retry (fst (DoLoad ora r s)) = retry s"
  "tls (fst (DoLoad ora r s)) = tls s"
  "cert (fst (DoLoad ora r s)) = cert s"
  "key (fst (DoLoad ora r s)) = key s"
  "formatter (fst (DoLoad ora r s)) = formatter s"
  "buffer (fst (DoLoad ora r s)) = buffer s"
  by (simp_all add: DoLoad_def Let_def split_beta split: option.splits)

lemma nat_1_int [simp]: "nat (1 + int n) = Suc n"
  by simp

section \<open>The parts of DoLoad\<close>

lemma snd_DoLoad_connect:
  "snd (DoLoad_connect ora r s) =
     (if 0 < getaddrinfo_ret ora \<or> \<not> socket_ok ora then Some False
      else if connect_ret ora < 0 then Some (retry s) else None)"
  by (simp add: DoLoad_connect_def wrapper_defs Let_def split_beta)

lemma DoLoad_cases:
  "DoLoad ora r s =
     (if 0 < getaddrinfo_ret ora \<or> \<not> socket_ok ora then (fst (DoLoad_connect ora r s), False)
      else if connect_ret ora < 0 then (fst (DoLoad_connect ora r s), retry s)
      else if tls s then
        (if snd (DoLoad_tls ora (fst (DoLoad_connect ora r s)))
         then DoLoad_key ora (fst (DoLoad_tls ora (fst (DoLoad_connect ora r s))))
         else (fst (DoLoad_tls ora (fst (DoLoad_connect ora r s))), False))
      else DoLoad_key ora (fst (DoLoad_connect ora r s)))"
proof -
  obtain c b where c: "DoLoad_connect ora r s = (c, b)"
    by (cases "DoLoad_connect ora r s")
  have b: "b = (if 0 < getaddrinfo_ret ora \<or> \<not> socket_ok ora then Some False
      else if connect_ret ora < 0 then Some (retry s) else None)"
    using snd_DoLoad_connect [of ora r s] c by simp
  have t: "tls c = tls s"
    using DoLoad_connect_members(4) [of ora r s] c by simp
  show ?thesis
    by (simp add: DoLoad_def c b t split_beta)
qed

text \<open>The number of the descriptor that socket() returns in this run.\<close>

lemma sock_DoLoad_connect:
  "sock (fst (DoLoad_connect ora r s)) =
     (if 0 < getaddrinfo_ret ora then sock s
      else if \<not> socket_ok ora \<or> connect_ret ora < 0 then - 1
      else if getaddrinfo_ret ora = 0 then int (Suc (fresh s)) else int (fresh s))"
  by (simp add: DoLoad_connect_def wrapper_defs Let_def split_beta)

lemma live_DoLoad_connect:
  "live (fst (DoLoad_connect ora r s)) =
     (if 0 < getaddrinfo_ret ora \<or> \<not> socket_ok ora \<or> connect_ret ora < 0 then live s
      else if getaddrinfo_ret ora = 0 then Fd (Suc (fresh s)) # live s else Fd (fresh s) # live s)"
  by (simp add: DoLoad_connect_def wrapper_defs Let_def split_beta)

lemma sock_DoLoad_tls:
  "sock (fst (DoLoad_tls ora s)) = (if snd (DoLoad_tls ora s) then sock s else - 1)"
  by (simp add: DoLoad_tls_def wrapper_defs Let_def split_beta)

lemma live_DoLoad_tls:
  "live (fst (DoLoad_tls ora s)) =
     (if snd (DoLoad_tls ora s) then Ssl_session (Suc (fresh s)) # Ssl_ctx (fresh s) # live s
      else if 0 \<le> sock s then remove1 (Fd (nat (sock s))) (live s) else live s)"
  by (simp add: DoLoad_tls_def wrapper_defs Let_def split_beta)

lemma ptrs_DoLoad_tls_imp:
  "snd (DoLoad_tls ora s) \<longrightarrow> ctx (fst (DoLoad_tls ora s)) = Ptr (fresh s)"
  "snd (DoLoad_tls ora s) \<longrightarrow> ssl (fst (DoLoad_tls ora s)) = Ptr (Suc (fresh s))"
  by (simp_all add: DoLoad_tls_def wrapper_defs Let_def split_beta)

lemma ptrs_DoLoad_tls:
  "snd (DoLoad_tls ora s) \<Longrightarrow> ctx (fst (DoLoad_tls ora s)) = Ptr (fresh s)"
  "snd (DoLoad_tls ora s) \<Longrightarrow> ssl (fst (DoLoad_tls ora s)) = Ptr (Suc (fresh s))"
  using ptrs_DoLoad_tls_imp by blast+

lemma sock_DoLoad_key:
  "sock (fst (DoLoad_key ora s)) = (if snd (DoLoad_key ora s) then sock s else - 1)"
  by (simp add: DoLoad_key_def wrapper_defs Let_def split_beta)

lemma live_DoLoad_key:
  "live (fst (DoLoad_key ora s)) =
     (if snd (DoLoad_key ora s) then live s
      else live (sys_close (sock s)
                   (if tls s then SSL_CTX_free (ctx s) (SSL_free (ssl s) s) else s)))"
  by (simp add: DoLoad_key_def wrapper_defs Let_def split_beta split: ptr.splits)

lemma DoLoad_failure_clean:
  assumes disconnected: "sock s = - 1"
    and failed: "\<not> (snd (DoLoad ora r s) \<and> 0 \<le> sock (fst (DoLoad ora r s)))"
  shows "sock (fst (DoLoad ora r s)) = - 1 \<and> live (fst (DoLoad ora r s)) = live s"
proof (cases "0 < getaddrinfo_ret ora \<or> \<not> socket_ok ora \<or> connect_ret ora < 0")
  case True
  then show ?thesis
    using disconnected
    by (auto simp: DoLoad_cases sock_DoLoad_connect live_DoLoad_connect)
next
  case False
  define c where "c = fst (DoLoad_connect ora r s)"
  define n where "n = (if getaddrinfo_ret ora = 0 then Suc (fresh s) else fresh s)"
  have c: "sock c = int n" "live c = Fd n # live s" "tls c = tls s"
    using False by (simp_all add: c_def n_def sock_DoLoad_connect live_DoLoad_connect)
  show ?thesis
  proof (cases "tls s")
    case plain: False
    have eq: "DoLoad ora r s = DoLoad_key ora c"
      using False plain by (simp add: DoLoad_cases c_def)
    have "\<not> snd (DoLoad_key ora c)"
      using failed c by (simp add: eq sock_DoLoad_key split: if_splits)
    then show ?thesis
      using plain c by (simp add: eq sock_DoLoad_key live_DoLoad_key)
  next
    case secured: True
    define t where "t = fst (DoLoad_tls ora c)"
    show ?thesis
    proof (cases "snd (DoLoad_tls ora c)")
      case no_session: False
      have eq: "DoLoad ora r s = (t, False)"
        using False secured no_session by (simp add: DoLoad_cases c_def t_def)
      show ?thesis
        using no_session c by (simp add: eq t_def sock_DoLoad_tls live_DoLoad_tls)
    next
      case session: True
      have eq: "DoLoad ora r s = DoLoad_key ora t"
        using False secured session by (simp add: DoLoad_cases c_def t_def)
      have t: "sock t = int n" "tls t" "ssl t = Ptr (Suc (fresh c))" "ctx t = Ptr (fresh c)"
        "live t = Ssl_session (Suc (fresh c)) # Ssl_ctx (fresh c) # Fd n # live s"
        using session c secured
        by (simp_all add: t_def sock_DoLoad_tls live_DoLoad_tls ptrs_DoLoad_tls)
      have "\<not> snd (DoLoad_key ora t)"
        using failed t by (simp add: eq sock_DoLoad_key split: if_splits)
      then show ?thesis
        using t by (simp add: eq sock_DoLoad_key live_DoLoad_key wrapper_defs)
    qed
  qed
qed

lemma trace_DoLoad_connect:
  "trace (fst (DoLoad_connect ora r s)) =
     trace s @ Getaddrinfo (host s) (tcpport s) #
       (if 0 < getaddrinfo_ret ora
        then [Error (''Error resolving '' @ host s @ '': '' @ strerror_errno ora)]
        else if \<not> socket_ok ora
        then [Error (''Error opening socket: '' @ strerror_errno ora)]
        else if connect_ret ora < 0
        then (if retry s
              then (if r then []
                    else [Warning (''Error connecting to '' @ addrstr ora @ '': ''
                                    @ strerror_errno ora)])
              else [Error (''Error connecting to '' @ addrstr ora @ '': ''
                            @ strerror_errno ora)])
        else [])"
  by (simp add: DoLoad_connect_def wrapper_defs Let_def split_beta)

lemma cert_DoLoad_connect: "cert (fst (DoLoad_connect ora r s)) = cert s"
  by simp

lemma DoLoad_tls_success_imp:
  "snd (DoLoad_tls ora s) \<longrightarrow> peer_present ora \<and> verify_result ora = X509_V_OK"
  by (simp add: DoLoad_tls_def wrapper_defs Let_def split_beta)

lemma DoLoad_success_tls:
  assumes "tls s" and "snd (DoLoad ora r s)" and "0 \<le> sock (fst (DoLoad ora r s))"
  shows "peer_present ora \<and> verify_result ora = X509_V_OK"
proof -
  have "snd (DoLoad_tls ora (fst (DoLoad_connect ora r s)))"
    using assms
    by (simp add: DoLoad_cases sock_DoLoad_connect split: if_splits)
  then show ?thesis
    using DoLoad_tls_success_imp by blast
qed

lemma DoLoad_tls_no_peer:
  assumes "ssl_ctx_new_ok ora"
    and "if cert s = [] then 0 < set_default_verify_paths_ret ora
         else 0 < load_verify_locations_ret ora"
    and "ssl_new_ok ora" and "set_tlsext_host_name_ret ora = 1" and "set_fd_ret ora = 1"
    and "ssl_connect_ret ora = 1" and "\<not> peer_present ora"
  shows "\<not> snd (DoLoad_tls ora s)
     \<and> trace (fst (DoLoad_tls ora s)) = trace s @ [Error ''Error getting TLS certificate'']"
  using assms
  by (cases "cert s = []") (simp_all add: DoLoad_tls_def wrapper_defs Let_def split_beta)

lemma DoLoad_tls_bad_cert:
  assumes "ssl_ctx_new_ok ora"
    and "if cert s = [] then 0 < set_default_verify_paths_ret ora
         else 0 < load_verify_locations_ret ora"
    and "ssl_new_ok ora" and "set_tlsext_host_name_ret ora = 1" and "set_fd_ret ora = 1"
    and "ssl_connect_ret ora = 1" and "peer_present ora" and "verify_result ora \<noteq> X509_V_OK"
  shows "\<not> snd (DoLoad_tls ora s)
     \<and> trace (fst (DoLoad_tls ora s)) =
         trace s @ [Error (''Error verifying TLS certificate: ''
                           @ verify_cert_error_string ora (verify_result ora))]"
  using assms
  by (cases "cert s = []") (simp_all add: DoLoad_tls_def wrapper_defs Let_def split_beta)

lemma DoLoad_no_peer:
  assumes "tls s" and h: "handshake_completes ora s" and "\<not> peer_present ora"
  shows "\<not> snd (DoLoad ora r s) \<and> sock (fst (DoLoad ora r s)) = - 1
     \<and> trace (fst (DoLoad ora r s)) =
         trace s @ [Getaddrinfo (host s) (tcpport s), Error ''Error getting TLS certificate'']"
proof -
  let ?c = "fst (DoLoad_connect ora r s)"
  have "\<not> snd (DoLoad_tls ora ?c)
     \<and> trace (fst (DoLoad_tls ora ?c)) = trace ?c @ [Error ''Error getting TLS certificate'']"
    using assms by (intro DoLoad_tls_no_peer) (simp_all add: handshake_completes_def)
  then show ?thesis
    using assms
    by (simp add: DoLoad_cases handshake_completes_def sock_DoLoad_tls trace_DoLoad_connect)
qed

lemma DoLoad_bad_cert:
  assumes "tls s" and h: "handshake_completes ora s" and "peer_present ora"
    and "verify_result ora \<noteq> X509_V_OK"
  shows "\<not> snd (DoLoad ora r s) \<and> sock (fst (DoLoad ora r s)) = - 1
     \<and> trace (fst (DoLoad ora r s)) =
         trace s @ [Getaddrinfo (host s) (tcpport s),
                    Error (''Error verifying TLS certificate: ''
                           @ verify_cert_error_string ora (verify_result ora))]"
proof -
  let ?c = "fst (DoLoad_connect ora r s)"
  have "\<not> snd (DoLoad_tls ora ?c)
     \<and> trace (fst (DoLoad_tls ora ?c)) =
         trace ?c @ [Error (''Error verifying TLS certificate: ''
                           @ verify_cert_error_string ora (verify_result ora))]"
    using assms by (intro DoLoad_tls_bad_cert) (simp_all add: handshake_completes_def)
  then show ?thesis
    using assms
    by (simp add: DoLoad_cases handshake_completes_def sock_DoLoad_tls trace_DoLoad_connect)
qed

text \<open>The faults of a run of DoLoad: uses of a pointer that holds no live object.\<close>

lemma faults_calls [simp]:
  "faults (emit e s) = faults s"
  "faults (raise_fault f s) = faults s @ [f]"
  "faults (snd (acquire K s)) = faults s"
  "faults (sys_close fd s) = faults s"
  "faults (release K (Ptr n) s) = faults s @ (if K n \<in> set (live s) then [] else [Release_dead (K n)])"
  "faults (release K Null s) = faults s"
  "faults (release K Indeterminate s) = faults s @ [Use_indeterminate]"
  "faults (deref K (Ptr n) s) = faults s @ (if K n \<in> set (live s) then [] else [Use_dead (K n)])"
  "faults (deref K Null s) = faults s @ [Use_null]"
  "faults (deref K Indeterminate s) = faults s @ [Use_indeterminate]"
  by (simp_all add: emit_def raise_fault_def acquire_def release_def deref_def sys_close_def)

lemma faults_DoLoad_connect:
  "faults (fst (DoLoad_connect ora r s)) =
     faults s @ (if getaddrinfo_ret ora = 0 then []
                 else if 0 < getaddrinfo_ret ora then [Use_indeterminate]
                 else [Use_indeterminate, Use_indeterminate])"
  by (simp add: DoLoad_connect_def wrapper_defs Let_def split_beta)

lemma faults_DoLoad_tls: "faults (fst (DoLoad_tls ora s)) = faults s"
  by (simp add: DoLoad_tls_def wrapper_defs Let_def split_beta)

lemma faults_DoLoad_key:
  assumes "tls s \<longrightarrow> (\<exists>a b. ssl s = Ptr a \<and> ctx s = Ptr b \<and> Ssl_session a \<in> set (live s)
                              \<and> Ssl_ctx b \<in> set (live s))"
  shows "faults (fst (DoLoad_key ora s)) = faults s"
proof (cases "tls s")
  case False
  then show ?thesis
    by (simp add: DoLoad_key_def wrapper_defs Let_def split_beta)
next
  case True
  then obtain a b where "ssl s = Ptr a" "ctx s = Ptr b" "Ssl_session a \<in> set (live s)"
    "Ssl_ctx b \<in> set (live s)"
    using assms by blast
  then show ?thesis
    using True by (simp add: DoLoad_key_def wrapper_defs Let_def split_beta)
qed

lemma DoLoad_faultless:
  assumes "getaddrinfo_ret ora = 0"
  shows "faults (fst (DoLoad ora r s)) = faults s"
proof -
  let ?c = "fst (DoLoad_connect ora r s)"
  let ?t = "fst (DoLoad_tls ora ?c)"
  have c: "faults ?c = faults s"
    using assms by (simp add: faults_DoLoad_connect)
  have t: "faults ?t = faults s"
    by (simp add: faults_DoLoad_tls c)
  have kc: "\<not> tls s \<Longrightarrow> faults (fst (DoLoad_key ora ?c)) = faults s"
    by (simp add: faults_DoLoad_key c)
  have kt: "snd (DoLoad_tls ora ?c) \<Longrightarrow> faults (fst (DoLoad_key ora ?t)) = faults s"
    by (simp add: faults_DoLoad_key t ptrs_DoLoad_tls live_DoLoad_tls)
  show ?thesis
    using c t kc kt by (simp add: DoLoad_cases)
qed

lemma DoLoad_resolution_branch:
  assumes "0 < getaddrinfo_ret ora"
  shows "\<not> snd (DoLoad ora r s)"
    and "faults (fst (DoLoad ora r s)) = faults s @ [Use_indeterminate]"
    and "trace (fst (DoLoad ora r s)) =
           trace s @ [Getaddrinfo (host s) (tcpport s),
                      Error (''Error resolving '' @ host s @ '': '' @ strerror_errno ora)]"
  using assms by (simp_all add: DoLoad_cases faults_DoLoad_connect trace_DoLoad_connect)

lemma faults_DoLoad_key_ext: "\<exists>fs. faults (fst (DoLoad_key ora s)) = faults s @ fs"
  by (cases "ssl s"; cases "ctx s")
     (simp_all add: DoLoad_key_def wrapper_defs Let_def split_beta)

lemma DoLoad_negative_code:
  assumes "getaddrinfo_ret ora < 0"
  shows "\<exists>fs. faults (fst (DoLoad ora r s)) = faults s @ Use_indeterminate # Use_indeterminate # fs"
proof -
  let ?c = "fst (DoLoad_connect ora r s)"
  let ?t = "fst (DoLoad_tls ora ?c)"
  have c: "faults ?c = faults s @ [Use_indeterminate, Use_indeterminate]"
    using assms by (simp add: faults_DoLoad_connect)
  have t: "faults ?t = faults s @ [Use_indeterminate, Use_indeterminate]"
    by (simp add: faults_DoLoad_tls c)
  obtain f1 where k1: "faults (fst (DoLoad_key ora ?c)) = faults ?c @ f1"
    using faults_DoLoad_key_ext by blast
  obtain f2 where k2: "faults (fst (DoLoad_key ora ?t)) = faults ?t @ f2"
    using faults_DoLoad_key_ext by blast
  show ?thesis
    by (simp add: DoLoad_cases c t k1 k2)
qed

text \<open>What DoLoad reports and what it hands to the plain socket.\<close>

lemma warnings_append [simp]: "warnings (xs @ ys) = warnings xs @ warnings ys"
  by (simp add: warnings_def)

lemma cleartext_append [simp]: "cleartext (xs @ ys) = cleartext xs @ cleartext ys"
  by (simp add: cleartext_def)

lemma warnings_simps [simp]:
  "warnings [] = []"
  "warnings (Warning m # tr) = Warning m # warnings tr"
  "warnings (Error m # tr) = warnings tr"
  "warnings (Getaddrinfo h p # tr) = warnings tr"
  "warnings (Send fd b n # tr) = warnings tr"
  "warnings (SSL_write q b n # tr) = warnings tr"
  by (simp_all add: warnings_def)

lemma cleartext_simps [simp]:
  "cleartext [] = []"
  "cleartext (Warning m # tr) = cleartext tr"
  "cleartext (Error m # tr) = cleartext tr"
  "cleartext (Getaddrinfo h p # tr) = cleartext tr"
  "cleartext (Send fd b n # tr) = Send fd b n # cleartext tr"
  "cleartext (SSL_write q b n # tr) = cleartext tr"
  by (simp_all add: cleartext_def)

lemma DoLoad_tls_quiet:
  "warnings (trace (fst (DoLoad_tls ora s))) = warnings (trace s)"
  "cleartext (trace (fst (DoLoad_tls ora s))) = cleartext (trace s)"
  by (simp_all add: DoLoad_tls_def wrapper_defs Let_def split_beta)

lemma DoLoad_key_quiet:
  "warnings (trace (fst (DoLoad_key ora s))) = warnings (trace s)"
  "tls s \<Longrightarrow> cleartext (trace (fst (DoLoad_key ora s))) = cleartext (trace s)"
  by (simp_all add: DoLoad_key_def wrapper_defs Let_def split_beta)

lemma warnings_DoLoad:
  "warnings (trace (fst (DoLoad ora r s))) =
     warnings (trace s) @
       (if retry s \<and> \<not> r \<and> \<not> 0 < getaddrinfo_ret ora \<and> socket_ok ora \<and> connect_ret ora < 0
        then [Warning (''Error connecting to '' @ addrstr ora @ '': '' @ strerror_errno ora)]
        else [])"
  by (simp add: DoLoad_cases DoLoad_tls_quiet DoLoad_key_quiet trace_DoLoad_connect)

lemma cleartext_DoLoad:
  "tls s \<Longrightarrow> cleartext (trace (fst (DoLoad ora r s))) = cleartext (trace s)"
  by (simp add: DoLoad_cases DoLoad_tls_quiet DoLoad_key_quiet trace_DoLoad_connect)

section \<open>DoUnload and DoWrite\<close>

lemma DoUnload_members [simp]:
  "snd (DoUnload s)"
  "sock (fst (DoUnload s)) = - 1"
  "host (fst (DoUnload s)) = host s"
  "tcpport (fst (DoUnload s)) = tcpport s"
  "retry (fst (DoUnload s)) = retry s"
  "tls (fst (DoUnload s)) = tls s"
  "cert (fst (DoUnload s)) = cert s"
  "key (fst (DoUnload s)) = key s"
  "ctx (fst (DoUnload s)) = ctx s"
  "ssl (fst (DoUnload s)) = ssl s"
  "formatter (fst (DoUnload s)) = formatter s"
  "buffer (fst (DoUnload s)) = buffer s"
  "trace (fst (DoUnload s)) = trace s"
  "fresh (fst (DoUnload s)) = fresh s"
  by (simp_all add: DoUnload_def wrapper_defs Let_def)

lemma live_DoUnload:
  "live (fst (DoUnload s)) =
     live (sys_close (sock s) (if tls s then SSL_CTX_free (ctx s) (SSL_free (ssl s) s) else s))"
  by (simp add: DoUnload_def wrapper_defs Let_def split: ptr.splits)

lemma DoWrite_send_accepted:
  assumes "0 \<le> write_ret wa"
  shows "snd (DoWrite_send d wa row s)"
    and "trace (fst (DoWrite_send d wa row s)) = trace s @ [record_event d wa row s]"
    and "sock (fst (DoWrite_send d wa row s)) = sock s"
    and "live (fst (DoWrite_send d wa row s)) = live s"
    and "ssl (fst (DoWrite_send d wa row s)) = ssl s"
    and "ctx (fst (DoWrite_send d wa row s)) = ctx s"
    and "fresh (fst (DoWrite_send d wa row s)) = fresh s"
    and "buffer (fst (DoWrite_send d wa row s)) = d row @ [LF]"
  using assms
  by (simp_all add: DoWrite_send_def record_event_def Let_def split_beta)

lemma DoWrite_send_defunct:
  assumes "write_ret wa < 0" and "\<not> retry s"
  shows "\<not> snd (DoWrite_send d wa row s)"
    and "trace (fst (DoWrite_send d wa row s)) =
           trace s @ [record_event d wa row s, send_error wa s]"
    and "sock (fst (DoWrite_send d wa row s)) = sock s"
    and "live (fst (DoWrite_send d wa row s)) = live s"
    and "ssl (fst (DoWrite_send d wa row s)) = ssl s"
    and "ctx (fst (DoWrite_send d wa row s)) = ctx s"
  using assms
  by (simp_all add: DoWrite_send_def record_event_def send_error_def Let_def split_beta)

lemma DoWrite_send_recover:
  assumes "write_ret wa < 0" and "retry s"
  shows "\<exists>u. DoWrite_send d wa row s = (fst (DoLoad (recover wa) DoLoad_default_is_retry u), True)
           \<and> trace u = trace s @ [record_event d wa row s]
           \<and> sock u = - 1 \<and> live u = live (fst (DoUnload s))
           \<and> host u = host s \<and> tcpport u = tcpport s \<and> retry u = retry s \<and> tls u = tls s
           \<and> cert u = cert s \<and> key u = key s"
proof (cases "tls s")
  case True
  let ?sent = "emit (SSL_write (ssl s) (d row @ [LF]) (write_ret wa))
                 (deref Ssl_session (ssl s)
                    ((deref Json (formatter s) (s\<lparr>buffer := []\<rparr>))\<lparr>buffer := d row @ [LF]\<rparr>))"
  have "DoWrite_send d wa row s =
          (fst (DoLoad (recover wa) DoLoad_default_is_retry (fst (DoUnload ?sent))), True)"
    using assms True by (simp add: DoWrite_send_def Let_def split_beta)
  moreover have "live (fst (DoUnload ?sent)) = live (fst (DoUnload s))"
    using True by (simp add: live_DoUnload wrapper_defs split: ptr.splits)
  ultimately show ?thesis
    using True by (intro exI [of _ "fst (DoUnload ?sent)"]) (simp add: record_event_def)
next
  case False
  let ?sent = "emit (Send (sock s) (d row @ [LF]) (write_ret wa))
                 ((deref Json (formatter s) (s\<lparr>buffer := []\<rparr>))\<lparr>buffer := d row @ [LF]\<rparr>)"
  have "DoWrite_send d wa row s =
          (fst (DoLoad (recover wa) DoLoad_default_is_retry (fst (DoUnload ?sent))), True)"
    using assms False by (simp add: DoWrite_send_def Let_def split_beta)
  moreover have "live (fst (DoUnload ?sent)) = live (fst (DoUnload s))"
    using False by (simp add: live_DoUnload)
  ultimately show ?thesis
    using False by (intro exI [of _ "fst (DoUnload ?sent)"]) (simp add: record_event_def)
qed

lemma DoWrite_connected: "0 \<le> sock s \<Longrightarrow> DoWrite d wa row s = DoWrite_send d wa row s"
  by (simp add: DoWrite_def)

lemma transmissions_append [simp]:
  "transmissions (xs @ ys) = transmissions xs @ transmissions ys"
  by (simp add: transmissions_def)

lemma transmissions_simps [simp]:
  "transmissions [] = []"
  "transmissions (Warning m # tr) = transmissions tr"
  "transmissions (Error m # tr) = transmissions tr"
  "transmissions (Getaddrinfo h p # tr) = transmissions tr"
  "transmissions (Send fd b n # tr) = Send fd b n # transmissions tr"
  "transmissions (SSL_write q b n # tr) = SSL_write q b n # transmissions tr"
  by (simp_all add: transmissions_def)

lemma transmissions_DoLoad_connect:
  "transmissions (trace (fst (DoLoad_connect ora r s))) = transmissions (trace s)"
  by (simp add: trace_DoLoad_connect)

lemma transmissions_DoLoad_tls:
  "transmissions (trace (fst (DoLoad_tls ora s))) = transmissions (trace s)"
  by (simp add: DoLoad_tls_def wrapper_defs Let_def split_beta)

lemma transmissions_DoLoad_key:
  "\<exists>ks. transmissions (trace (fst (DoLoad_key ora s))) = transmissions (trace s) @ ks
        \<and> length ks \<le> 1
        \<and> (\<forall>e \<in> set ks. payload e = (if tls s then key s @ [LF] else key s))"
  by (simp add: DoLoad_key_def wrapper_defs Let_def split_beta)

lemma transmissions_DoLoad:
  "\<exists>ks. transmissions (trace (fst (DoLoad ora r s))) = transmissions (trace s) @ ks
        \<and> length ks \<le> 1
        \<and> (\<forall>e \<in> set ks. payload e = (if tls s then key s @ [LF] else key s))"
proof -
  let ?c = "fst (DoLoad_connect ora r s)"
  let ?t = "fst (DoLoad_tls ora ?c)"
  have c: "transmissions (trace ?c) = transmissions (trace s)" "tls ?c = tls s" "key ?c = key s"
    by (simp_all add: transmissions_DoLoad_connect)
  have t: "transmissions (trace ?t) = transmissions (trace s)" "tls ?t = tls s" "key ?t = key s"
    by (simp_all add: transmissions_DoLoad_tls c)
  have stop: "\<exists>ks. transmissions (trace s) = transmissions (trace s) @ ks \<and> length ks \<le> 1
        \<and> (\<forall>e \<in> set ks. payload e = (if tls s then key s @ [LF] else key s))"
    by (intro exI [of _ "[]"]) simp
  note k1 = transmissions_DoLoad_key [of ora ?c, unfolded c]
  note k2 = transmissions_DoLoad_key [of ora ?t, unfolded t]
  show ?thesis
    using k1 k2 stop
    by (cases "tls s") (simp_all add: DoLoad_cases c t)
qed

lemma DoWrite_send_members [simp]:
  "host (fst (DoWrite_send d wa row s)) = host s"
  "tcpport (fst (DoWrite_send d wa row s)) = tcpport s"
  "retry (fst (DoWrite_send d wa row s)) = retry s"
  "tls (fst (DoWrite_send d wa row s)) = tls s"
  "cert (fst (DoWrite_send d wa row s)) = cert s"
  "key (fst (DoWrite_send d wa row s)) = key s"
  "formatter (fst (DoWrite_send d wa row s)) = formatter s"
  by (simp_all add: DoWrite_send_def Let_def split_beta)

lemma DoWrite_members [simp]:
  "host (fst (DoWrite d wa row s)) = host s"
  "tcpport (fst (DoWrite d wa row s)) = tcpport s"
  "retry (fst (DoWrite d wa row s)) = retry s"
  "tls (fst (DoWrite d wa row s)) = tls s"
  "cert (fst (DoWrite d wa row s)) = cert s"
  "key (fst (DoWrite d wa row s)) = key s"
  "formatter (fst (DoWrite d wa row s)) = formatter s"
  by (simp_all add: DoWrite_def Let_def split_beta)

lemma cleartext_DoWrite_send:
  "tls s \<Longrightarrow> cleartext (trace (fst (DoWrite_send d wa row s))) = cleartext (trace s)"
  by (simp add: DoWrite_send_def Let_def split_beta cleartext_DoLoad)

lemma cleartext_DoWrite:
  "tls s \<Longrightarrow> cleartext (trace (fst (DoWrite d wa row s))) = cleartext (trace s)"
  by (simp add: DoWrite_def Let_def split_beta cleartext_DoLoad cleartext_DoWrite_send)

lemma cleartext_run_writes:
  "tls s \<Longrightarrow> cleartext (trace (run_writes d ws s)) = cleartext (trace s)"
  by (induction ws arbitrary: s) (simp_all add: cleartext_DoWrite)

lemma warnings_DoWrite_send:
  "warnings (trace (fst (DoWrite_send d wa row s))) =
     warnings (trace s) @
       (if write_ret wa < 0 \<and> retry s \<and> \<not> DoLoad_default_is_retry
           \<and> \<not> 0 < getaddrinfo_ret (recover wa) \<and> socket_ok (recover wa)
           \<and> connect_ret (recover wa) < 0
        then [Warning (''Error connecting to '' @ addrstr (recover wa) @ '': ''
                        @ strerror_errno (recover wa))]
        else [])"
  by (simp add: DoWrite_send_def Let_def split_beta warnings_DoLoad)

lemma warnings_DoWrite:
  "warnings (trace (fst (DoWrite d wa row s))) =
     warnings (trace s) @
       (if (0 \<le> sock s \<or> retry s \<and> 0 \<le> sock (fst (DoLoad (reconnect wa) True s)))
           \<and> write_ret wa < 0 \<and> retry s \<and> \<not> DoLoad_default_is_retry
           \<and> \<not> 0 < getaddrinfo_ret (recover wa) \<and> socket_ok (recover wa)
           \<and> connect_ret (recover wa) < 0
        then [Warning (''Error connecting to '' @ addrstr (recover wa) @ '': ''
                        @ strerror_errno (recover wa))]
        else [])"
  by (simp add: DoWrite_def Let_def split_beta warnings_DoLoad warnings_DoWrite_send)

section \<open>The pre-shared key line\<close>

text \<open>
  C2. The claim: for every non-empty key, on every successful connection establishment,
  plain or TLS, the first bytes sent equal the key followed by one line feed. The TLS
  branch does that. The plain branch sends the key alone: on a plain connection to a
  listening peer with key \<open>secret\<close>, the six bytes of the key are all that is handed
  to send, and DoLoad reports success.
\<close>

theorem plain_key_lacks_newline:
  "DoLoad (all_ok\<lparr>key_write_ret := 6\<rparr>) False (secret_writer False) =
     (secret_writer False\<lparr>sock := 4, live := [Fd 4], fresh := 5,
        trace := [Getaddrinfo ''collector'' 1337, Send 4 ''secret'' 6]\<rparr>, True)
   \<and> ''secret'' \<noteq> ''secret'' @ [LF]
   \<and> trace (fst (DoLoad all_ok False (secret_writer True))) =
       [Getaddrinfo ''collector'' 1337, SSL_write (Ptr 6) (''secret'' @ [LF]) 7]"
  by (simp add: DoLoad_def DoLoad_connect_def DoLoad_key_def DoLoad_tls_def all_ok_def
        secret_writer_def TCP_def call_defs Let_def X509_V_OK_def)

section \<open>Scenario: nobody listens\<close>

lemma stoi_9999: "stoi ''9999'' = Inr 9999"
  by (simp add: stoi_def isspace_def isdigit_def digit_val_def Let_def)

lemma DoLoad_no_listener:
  assumes "no_listener ora"
  shows "snd (DoLoad ora r s) = retry s"
    and "sock (fst (DoLoad ora r s)) = - 1"
    and "live (fst (DoLoad ora r s)) = live s"
    and "trace (fst (DoLoad ora r s)) =
      trace s @ Getaddrinfo (host s) (tcpport s) #
         (if retry s
          then (if r then []
                else [Warning (''Error connecting to '' @ addrstr ora @ '': '' @ strerror_errno ora)])
          else [Error (''Error connecting to '' @ addrstr ora @ '': '' @ strerror_errno ora)])"
  using assms
  by (simp_all add: no_listener_def DoLoad_cases sock_DoLoad_connect live_DoLoad_connect
        trace_DoLoad_connect)

lemma DoInit_c1:
  "DoInit c1_config ora (TCP h p r t c k) =
     Inr (DoLoad ora False
       (\<lparr>ssl_init = False, sock = - 1, host = ''127.0.0.1'', tcpport = 9999, retry = True,
         tls = False, cert = c, key = k, ctx = Indeterminate, ssl = Indeterminate,
         formatter = Ptr 3, buffer = [], live = [Json 3], fresh = 4, trace = [],
         faults = []\<rparr>))"
  by (simp add: DoInit_def c1_config_def GetConfigValue_def stoi_9999 TCP_def acquire_def
        DoLoad_default_is_retry_def Let_def)

lemma no_listener_refused: "no_listener refused"
  by (simp add: no_listener_def refused_def all_ok_def)

lemma refused_fields:
  "getaddrinfo_ret refused = 0" "socket_ok refused" "connect_ret refused = - 1"
  "addrstr refused = ''127.0.0.1''" "strerror_errno refused = ''Connection refused''"
  by (simp_all add: refused_def all_ok_def)

lemma broken_pipe_fields:
  "reconnect (broken_pipe a b) = a" "recover (broken_pipe a b) = b"
  "write_ret (broken_pipe a b) = - 1"
  by (simp_all add: broken_pipe_def)

lemma initialised_refused:
  "initialised refused False True =
     \<lparr>ssl_init = False, sock = - 1, host = ''collector'', tcpport = 1337, retry = True,
      tls = False, cert = [], key = [], ctx = Indeterminate, ssl = Indeterminate,
      formatter = Ptr 3, buffer = [], live = [Json 3], fresh = 6,
      trace = [Getaddrinfo ''collector'' 1337,
               Warning ''Error connecting to 127.0.0.1: Connection refused''],
      faults = []\<rparr>"
  by code_simp

lemma initialised_plain:
  "initialised all_ok False True =
     \<lparr>ssl_init = False, sock = 5, host = ''collector'', tcpport = 1337, retry = True,
      tls = False, cert = [], key = [], ctx = Indeterminate, ssl = Indeterminate,
      formatter = Ptr 3, buffer = [], live = [Fd 5, Json 3], fresh = 6,
      trace = [Getaddrinfo ''collector'' 1337], faults = []\<rparr>"
  "initialised all_ok False False =
     \<lparr>ssl_init = False, sock = 5, host = ''collector'', tcpport = 1337, retry = False,
      tls = False, cert = [], key = [], ctx = Indeterminate, ssl = Indeterminate,
      formatter = Ptr 3, buffer = [], live = [Fd 5, Json 3], fresh = 6,
      trace = [Getaddrinfo ''collector'' 1337], faults = []\<rparr>"
  by code_simp+

lemma initialised_tls:
  "initialised all_ok True True =
     \<lparr>ssl_init = True, sock = 5, host = ''collector'', tcpport = 1337, retry = True,
      tls = True, cert = [], key = [], ctx = Ptr 6, ssl = Ptr 7,
      formatter = Ptr 3, buffer = [], live = [Ssl_session 7, Ssl_ctx 6, Fd 5, Json 3],
      fresh = 9, trace = [Getaddrinfo ''collector'' 1337], faults = []\<rparr>"
  "initialised all_ok True False =
     \<lparr>ssl_init = True, sock = 5, host = ''collector'', tcpport = 1337, retry = False,
      tls = True, cert = [], key = [], ctx = Ptr 6, ssl = Ptr 7,
      formatter = Ptr 3, buffer = [], live = [Ssl_session 7, Ssl_ctx 6, Fd 5, Json 3],
      fresh = 9, trace = [Getaddrinfo ''collector'' 1337], faults = []\<rparr>"
  by code_simp+

text \<open>
  C1, as the claim states it: with the configuration host 127.0.0.1, port 9999, retry on,
  TLS off and nobody listening, Initialize returns failure. It does not: DoLoad ends its
  connect-failure branch with \<open>return retry\<close> ("clean up and return success if
  retrying"), so DoInit returns true.
\<close>

theorem initialize_returns_true_without_listener:
  "map_sum id snd (DoInit c1_config refused (TCP ''localhost'' 1337 False False [] [])) = Inr True"
  by (simp add: DoInit_c1 DoLoad_no_listener [OF no_listener_refused])

text \<open>
  C1, amended: in that scenario Initialize returns true; it has reported exactly one
  Warning, the writer is disconnected (\<open>sock = -1\<close>) and holds nothing but its
  formatter. A following Write makes one reconnection attempt (one getaddrinfo), reports
  nothing, hands nothing to any transport and returns true: the record is dropped.
\<close>

theorem no_listener_scenario:
  assumes "no_listener ora" and "no_listener (reconnect wa)"
  shows "\<exists>s1 s2. DoInit c1_config ora (TCP h p r t c k) = Inr (s1, True)
           \<and> sock s1 = - 1
           \<and> live s1 = [Json 3]
           \<and> trace s1 = [Getaddrinfo ''127.0.0.1'' 9999,
                Warning (''Error connecting to '' @ addrstr ora @ '': '' @ strerror_errno ora)]
           \<and> DoWrite d wa row s1 = (s2, True)
           \<and> sock s2 = - 1
           \<and> live s2 = [Json 3]
           \<and> trace s2 = trace s1 @ [Getaddrinfo ''127.0.0.1'' 9999]"
proof -
  define s0 where "s0 =
       \<lparr>ssl_init = False, sock = - 1, host = ''127.0.0.1'', tcpport = 9999, retry = True,
         tls = False, cert = c, key = k, ctx = Indeterminate, ssl = Indeterminate,
         formatter = Ptr 3, buffer = [], live = [Json 3], fresh = 4, trace = [],
         faults = []\<rparr>"
  define s1 where "s1 = fst (DoLoad ora False s0)"
  define s2 where "s2 = fst (DoLoad (reconnect wa) True s1)"
  have s0: "retry s0" "host s0 = ''127.0.0.1''" "tcpport s0 = 9999" "trace s0 = []"
    "live s0 = [Json 3]"
    by (simp_all add: s0_def)
  have init: "DoInit c1_config ora (TCP h p r t c k) = Inr (s1, True)"
    using DoLoad_no_listener(1) [OF assms(1), of False s0] s0
    by (simp add: DoInit_c1 s0_def [symmetric] s1_def prod_eq_iff)
  have s1: "sock s1 = - 1" "retry s1" "host s1 = ''127.0.0.1''" "tcpport s1 = 9999"
    "live s1 = [Json 3]"
    "trace s1 = [Getaddrinfo ''127.0.0.1'' 9999,
                Warning (''Error connecting to '' @ addrstr ora @ '': '' @ strerror_errno ora)]"
    using s0 by (simp_all add: s1_def DoLoad_no_listener [OF assms(1)])
  have s2: "sock s2 = - 1" "trace s2 = trace s1 @ [Getaddrinfo ''127.0.0.1'' 9999]"
    "live s2 = [Json 3]"
    using s1 by (simp_all add: s2_def DoLoad_no_listener [OF assms(2)])
  have "DoWrite d wa row s1 = (s2, True)"
    using s1 s2 by (simp add: DoWrite_def split_beta s2_def [symmetric])
  with init s1 s2 show ?thesis
    by blast
qed

theorem no_listener_scenario_witness:
  "no_listener refused \<and> no_listener (reconnect (broken_pipe refused all_ok))
   \<and> (\<exists>s1 s2. DoInit c1_config refused (TCP ''localhost'' 1337 False False [] []) = Inr (s1, True)
           \<and> sock s1 = - 1
           \<and> live s1 = [Json 3]
           \<and> trace s1 = [Getaddrinfo ''127.0.0.1'' 9999,
                Warning ''Error connecting to 127.0.0.1: Connection refused'']
           \<and> DoWrite (\<lambda>r. r) (broken_pipe refused all_ok) ''{}'' s1 = (s2, True)
           \<and> sock s2 = - 1
           \<and> live s2 = [Json 3]
           \<and> trace s2 = trace s1 @ [Getaddrinfo ''127.0.0.1'' 9999])"
proof -
  have h2: "no_listener (reconnect (broken_pipe refused all_ok))"
    by (simp add: broken_pipe_def no_listener_refused)
  show ?thesis
    using no_listener_scenario [OF no_listener_refused h2,
        of "''localhost''" 1337 False False "[]" "[]" "\<lambda>r. r" "''{}''"]
      no_listener_refused h2
    by (simp add: refused_def all_ok_def)
qed

section \<open>Teardown\<close>

text \<open>
  C3. The claim: Finish on a writer that is already disconnected does not release a TLS
  session or context a second time, for every configuration. DoUnload has no guard on
  \<open>sock\<close>: with TLS on it always calls SSL_shutdown, SSL_free and SSL_CTX_free on the
  members \<open>ssl\<close> and \<open>ctx\<close>. First run: retry and TLS on, the connection is
  established, a Write fails to send, tears the transport down and cannot reconnect;
  the writer is disconnected without a fault. Finish then uses and frees session 7 and
  frees context 6 again. Second run: the writer never connected, so Finish passes the
  never-assigned pointers to the three calls.
\<close>

theorem finish_releases_tls_objects_again:
  "DoWrite (\<lambda>r. r) (broken_pipe all_ok refused) ''{}'' (initialised all_ok True True) =
     (\<lparr>ssl_init = True, sock = - 1, host = ''collector'', tcpport = 1337, retry = True,
       tls = True, cert = [], key = [], ctx = Ptr 6, ssl = Ptr 7, formatter = Ptr 3,
       buffer = ''{}'' @ [LF], live = [Json 3], fresh = 11,
       trace = [Getaddrinfo ''collector'' 1337, SSL_write (Ptr 7) (''{}'' @ [LF]) (- 1),
                Getaddrinfo ''collector'' 1337,
                Warning ''Error connecting to 127.0.0.1: Connection refused''],
       faults = []\<rparr>, True)
   \<and> DoFinish
      \<lparr>ssl_init = True, sock = - 1, host = ''collector'', tcpport = 1337, retry = True,
       tls = True, cert = [], key = [], ctx = Ptr 6, ssl = Ptr 7, formatter = Ptr 3,
       buffer = ''{}'' @ [LF], live = [Json 3], fresh = 11,
       trace = [Getaddrinfo ''collector'' 1337, SSL_write (Ptr 7) (''{}'' @ [LF]) (- 1),
                Getaddrinfo ''collector'' 1337,
                Warning ''Error connecting to 127.0.0.1: Connection refused''],
       faults = []\<rparr> =
     (\<lparr>ssl_init = True, sock = - 1, host = ''collector'', tcpport = 1337, retry = True,
       tls = True, cert = [], key = [], ctx = Ptr 6, ssl = Ptr 7, formatter = Ptr 3,
       buffer = ''{}'' @ [LF], live = [], fresh = 11,
       trace = [Getaddrinfo ''collector'' 1337, SSL_write (Ptr 7) (''{}'' @ [LF]) (- 1),
                Getaddrinfo ''collector'' 1337,
                Warning ''Error connecting to 127.0.0.1: Connection refused''],
       faults = [Use_dead (Ssl_session 7), Release_dead (Ssl_session 7),
                 Release_dead (Ssl_ctx 6)]\<rparr>, True)
   \<and> DoFinish (initialised refused True True) =
     (\<lparr>ssl_init = False, sock = - 1, host = ''collector'', tcpport = 1337, retry = True,
       tls = True, cert = [], key = [], ctx = Indeterminate, ssl = Indeterminate,
       formatter = Ptr 3, buffer = [], live = [], fresh = 6,
       trace = [Getaddrinfo ''collector'' 1337,
                Warning ''Error connecting to 127.0.0.1: Connection refused''],
       faults = [Use_indeterminate, Use_indeterminate, Use_indeterminate]\<rparr>, True)"
  by code_simp

section \<open>Resolution failure\<close>

text \<open>
  C9. The claim: a failure of endpoint resolution makes connection establishment report
  an Error and return failure. DoLoad tests \<open>ret > 0\<close>; glibc reports resolution
  errors as negative numbers (EAI_NONAME is -2). With that answer DoLoad reports nothing,
  reads through the unassigned \<open>addr\<close> (two faults: the read for socket() and
  freeaddrinfo) and, the rest succeeding, returns true. A positive code takes the
  failure branch, whatever the retry flag.
\<close>

theorem negative_resolution_error_goes_unnoticed:
  "DoLoad name_not_found False (TCP ''collector'' 1337 False False [] []) =
     (\<lparr>ssl_init = False, sock = 3, host = ''collector'', tcpport = 1337, retry = False,
       tls = False, cert = [], key = [], ctx = Indeterminate, ssl = Indeterminate,
       formatter = Indeterminate, buffer = [], live = [Fd 3], fresh = 4,
       trace = [Getaddrinfo ''collector'' 1337],
       faults = [Use_indeterminate, Use_indeterminate]\<rparr>, True)
   \<and> DoLoad (all_ok\<lparr>getaddrinfo_ret := 8\<rparr>) False (TCP ''collector'' 1337 True False [] []) =
     (\<lparr>ssl_init = False, sock = - 1, host = ''collector'', tcpport = 1337, retry = True,
       tls = False, cert = [], key = [], ctx = Indeterminate, ssl = Indeterminate,
       formatter = Indeterminate, buffer = [], live = [], fresh = 3,
       trace = [Getaddrinfo ''collector'' 1337, Error ''Error resolving collector: Success''],
       faults = [Use_indeterminate]\<rparr>, False)"
  by code_simp

section \<open>Warnings\<close>

lemma DoInit_as_DoLoad:
  assumes "DoInit cfg ora s0 = Inr res"
  shows "\<exists>s8. res = DoLoad ora DoLoad_default_is_retry s8 \<and> trace s8 = trace s0"
proof -
  define s1 where "s1 = (if GetConfigValue cfg ''host'' \<noteq> []
                         then s0\<lparr>host := GetConfigValue cfg ''host''\<rparr> else s0)"
  define port where "port =
    (if GetConfigValue cfg ''tcpport'' \<noteq> [] then stoi (GetConfigValue cfg ''tcpport'')
     else Inr (tcpport s1))"
  have "\<not> isl port"
  proof
    assume "isl port"
    then obtain a where "port = Inl a"
      by (cases port) simp_all
    then have "DoInit cfg ora s0 = Inl a"
      unfolding DoInit_def Let_def port_def s1_def by simp
    with assms show False
      by simp
  qed
  then obtain p where p: "port = Inr p"
    by (cases port) simp_all
  define s2 where "s2 = s1\<lparr>tcpport := p\<rparr>"
  define s3 where "s3 = (if GetConfigValue cfg ''retry'' \<noteq> []
                         then s2\<lparr>retry := (GetConfigValue cfg ''retry'' = ''T'')\<rparr> else s2)"
  define s4 where "s4 = (if GetConfigValue cfg ''tls'' \<noteq> []
                         then s3\<lparr>tls := (GetConfigValue cfg ''tls'' = ''T'')\<rparr> else s3)"
  define s5 where "s5 = (if GetConfigValue cfg ''cert'' \<noteq> []
                         then s4\<lparr>cert := GetConfigValue cfg ''cert''\<rparr> else s4)"
  define s6 where "s6 = (if GetConfigValue cfg ''key'' \<noteq> []
                         then s5\<lparr>key := GetConfigValue cfg ''key''\<rparr> else s5)"
  define s8 where "s8 = (snd (acquire Json s6))\<lparr>formatter := Ptr (fst (acquire Json s6))\<rparr>"
  have "trace s1 = trace s0" by (simp add: s1_def)
  then have "trace s3 = trace s0" by (simp add: s3_def s2_def)
  then have "trace s5 = trace s0" by (simp add: s5_def s4_def)
  then have tr: "trace s8 = trace s0" by (simp add: s8_def s6_def)
  have "DoInit cfg ora s0 = Inr (DoLoad ora DoLoad_default_is_retry s8)"
    using p
    unfolding DoInit_def Let_def split_beta port_def s1_def s2_def s3_def s4_def s5_def s6_def
      s8_def
    by simp
  with assms tr show ?thesis
    by auto
qed

lemma DoInit_first_warning:
  assumes "DoInit cfg ora s0 = Inr (s1, b)" and "retry s1" and "no_listener ora"
  shows "warnings (trace s1) = warnings (trace s0) @ [connect_warning ora] \<and> sock s1 = - 1 \<and> b"
proof -
  obtain s8 where s8: "(s1, b) = DoLoad ora DoLoad_default_is_retry s8"
    "trace s8 = trace s0"
    using DoInit_as_DoLoad [OF assms(1)] by blast
  have s1: "s1 = fst (DoLoad ora DoLoad_default_is_retry s8)"
    and b: "b = snd (DoLoad ora DoLoad_default_is_retry s8)"
    using s8(1) by (metis fst_conv, metis snd_conv)
  have r: "retry s8"
    using assms(2) by (simp add: s1)
  show ?thesis
    using r assms(3) s8(2)
    by (simp add: s1 b DoLoad_no_listener connect_warning_def DoLoad_default_is_retry_def)
qed

lemma DoWrite_send_failure_warning:
  assumes "retry s" and "0 \<le> sock s" and "write_ret wa < 0" and "no_listener (recover wa)"
  shows "warnings (trace (fst (DoWrite d wa row s))) =
           warnings (trace s) @ [connect_warning (recover wa)]"
    and "sock (fst (DoWrite d wa row s)) = - 1"
proof -
  obtain u where u: "DoWrite_send d wa row s =
        (fst (DoLoad (recover wa) DoLoad_default_is_retry u), True)"
      "trace u = trace s @ [record_event d wa row s]" "retry u = retry s"
    using DoWrite_send_recover [OF assms(3,1), of d row] by blast
  show "warnings (trace (fst (DoWrite d wa row s))) =
           warnings (trace s) @ [connect_warning (recover wa)]"
    using assms
    by (simp add: warnings_DoWrite no_listener_def connect_warning_def
          DoLoad_default_is_retry_def)
  show "sock (fst (DoWrite d wa row s)) = - 1"
    using assms u by (simp add: DoWrite_connected DoLoad_no_listener)
qed

lemma stays_down_silent:
  "retry s \<Longrightarrow> sock s < 0 \<Longrightarrow> stays_down d ws s \<Longrightarrow>
     warnings (trace (run_writes d ws s)) = warnings (trace s) \<and> sock (run_writes d ws s) < 0"
proof (induction ws arbitrary: s)
  case Nil
  then show ?case by simp
next
  case (Cons w ws)
  let ?s1 = "fst (DoLoad (reconnect (fst w)) True s)"
  have down: "sock ?s1 < 0" and rest: "stays_down d ws (fst (DoWrite d (fst w) (snd w) s))"
    using Cons.prems(3) by simp_all
  have eq: "fst (DoWrite d (fst w) (snd w) s) = ?s1"
    using Cons.prems(1,2) down by (simp add: DoWrite_def split_beta)
  have "warnings (trace ?s1) = warnings (trace s)"
    by (simp add: warnings_DoLoad)
  moreover have "retry ?s1"
    using Cons.prems(1) by simp
  ultimately show ?case
    using Cons.IH [of ?s1] down rest by (simp add: eq)
qed

lemma DoWrite_warns_after_connection:
  assumes "retry s"
  shows "length (warnings (trace (fst (DoWrite d wa row s)))) \<le> Suc (length (warnings (trace s)))"
    and "warnings (trace (fst (DoWrite d wa row s))) \<noteq> warnings (trace s) \<Longrightarrow>
           (0 \<le> sock s \<or> 0 \<le> sock (fst (DoLoad (reconnect wa) True s))) \<and> write_ret wa < 0
           \<and> connect_ret (recover wa) < 0"
  using assms by (simp_all add: warnings_DoWrite split: if_splits)

lemma warnings_bounded_by_lost_connections:
  "retry s \<Longrightarrow>
     length (warnings (trace (run_writes d ws s))) \<le>
       length (warnings (trace s)) + lost_connections d ws s"
proof (induction ws arbitrary: s)
  case Nil
  then show ?case by simp
next
  case (Cons w ws)
  let ?s1 = "fst (DoWrite d (fst w) (snd w) s)"
  have r: "retry ?s1"
    using Cons.prems by simp
  have step: "length (warnings (trace ?s1)) \<le>
      length (warnings (trace s)) +
        (if (0 \<le> sock s \<or> 0 \<le> sock (fst (DoLoad (reconnect (fst w)) True s)))
            \<and> write_ret (fst w) < 0 then 1 else 0)"
    using Cons.prems by (simp add: warnings_DoWrite)
  show ?case
    using Cons.IH [OF r] step by simp
qed

lemma DoInit_refused:
  "DoInit Map.empty refused (TCP ''collector'' 1337 True False [] []) =
     Inr (initialised refused False True, True)"
  unfolding initialised_refused by code_simp

text \<open>
  C4. With retry on, a logical failed attempt is a period in which the writer is
  disconnected: it begins with a failed connect that is not a retry, and lasts until a
  reconnection succeeds. There are two such beginnings, and each emits the Warning: the
  connect of Initialize, and the reconnection that follows a send failure, which ends a
  connection that was up in that very call of Write. From then on, as long as the writer
  stays disconnected, no call of Write emits a Warning: each reconnects with the retry
  flag set, and a run of DoLoad flagged as a retry never warns. A call of Write emits at
  most one Warning, and emits one only if a connection was up during the call (on entry,
  or made by its own reconnection), the send on it failed and the reconnection after that
  could not connect; so the reconnection after a send failure never belongs to the period
  in which the writer was already disconnected. Over any sequence of calls of Write, the
  number of Warnings is at most the number of calls in which a connection was lost.
\<close>

theorem one_warning_per_logical_attempt:
  assumes "retry s"
  shows "(DoInit cfg ora s0 = Inr (s, b) \<and> no_listener ora \<longrightarrow>
            warnings (trace s) = warnings (trace s0) @ [connect_warning ora]
          \<and> sock s = - 1 \<and> b)
     \<and> (0 \<le> sock s \<and> write_ret wa < 0 \<and> no_listener (recover wa) \<longrightarrow>
            warnings (trace (fst (DoWrite d wa row s))) =
              warnings (trace s) @ [connect_warning (recover wa)]
          \<and> sock (fst (DoWrite d wa row s)) = - 1)
     \<and> (sock s < 0 \<and> stays_down d ws s \<longrightarrow>
            warnings (trace (run_writes d ws s)) = warnings (trace s)
          \<and> sock (run_writes d ws s) < 0)
     \<and> warnings (trace (fst (DoLoad ora' True s))) = warnings (trace s)
     \<and> length (warnings (trace (fst (DoWrite d wa row s)))) \<le>
         Suc (length (warnings (trace s)))
     \<and> (warnings (trace (fst (DoWrite d wa row s))) \<noteq> warnings (trace s) \<longrightarrow>
            (0 \<le> sock s \<or> 0 \<le> sock (fst (DoLoad (reconnect wa) True s)))
          \<and> write_ret wa < 0 \<and> connect_ret (recover wa) < 0)
     \<and> length (warnings (trace (run_writes d ws s))) \<le>
         length (warnings (trace s)) + lost_connections d ws s"
proof (intro conjI impI)
  assume a: "DoInit cfg ora s0 = Inr (s, b) \<and> no_listener ora"
  show "warnings (trace s) = warnings (trace s0) @ [connect_warning ora]" "sock s = - 1" "b"
    using DoInit_first_warning [of cfg ora s0 s b] a assms by simp_all
next
  assume a: "0 \<le> sock s \<and> write_ret wa < 0 \<and> no_listener (recover wa)"
  show "warnings (trace (fst (DoWrite d wa row s))) =
              warnings (trace s) @ [connect_warning (recover wa)]"
    "sock (fst (DoWrite d wa row s)) = - 1"
    using DoWrite_send_failure_warning [of s wa d row] a assms by simp_all
next
  assume a: "sock s < 0 \<and> stays_down d ws s"
  show "warnings (trace (run_writes d ws s)) = warnings (trace s)"
    "sock (run_writes d ws s) < 0"
    using stays_down_silent [of s d ws] a assms by simp_all
next
  show "warnings (trace (fst (DoLoad ora' True s))) = warnings (trace s)"
    by (simp add: warnings_DoLoad)
next
  show "length (warnings (trace (fst (DoWrite d wa row s)))) \<le>
         Suc (length (warnings (trace s)))"
    using DoWrite_warns_after_connection(1) [OF assms] .
next
  assume a: "warnings (trace (fst (DoWrite d wa row s))) \<noteq> warnings (trace s)"
  show "0 \<le> sock s \<or> 0 \<le> sock (fst (DoLoad (reconnect wa) True s))"
    "write_ret wa < 0" "connect_ret (recover wa) < 0"
    using DoWrite_warns_after_connection(2) [OF assms a] by simp_all
next
  show "length (warnings (trace (run_writes d ws s))) \<le>
         length (warnings (trace s)) + lost_connections d ws s"
    using warnings_bounded_by_lost_connections [OF assms] .
qed

theorem one_warning_per_logical_attempt_witness:
  "retry (initialised refused False True)
   \<and> DoInit Map.empty refused (TCP ''collector'' 1337 True False [] []) =
       Inr (initialised refused False True, True)
   \<and> no_listener refused
   \<and> warnings (trace (initialised refused False True)) =
       [Warning ''Error connecting to 127.0.0.1: Connection refused'']
   \<and> sock (initialised refused False True) = - 1
   \<and> stays_down (\<lambda>r. r) [((taken 3)\<lparr>reconnect := refused\<rparr>, ''a''), (broken_pipe refused all_ok, ''b'')]
        (initialised refused False True)
   \<and> warnings (trace (run_writes (\<lambda>r. r) [((taken 3)\<lparr>reconnect := refused\<rparr>, ''a''), (broken_pipe refused all_ok, ''b'')]
                        (initialised refused False True))) =
       [Warning ''Error connecting to 127.0.0.1: Connection refused'']
   \<and> sock (run_writes (\<lambda>r. r) [((taken 3)\<lparr>reconnect := refused\<rparr>, ''a''), (broken_pipe refused all_ok, ''b'')]
             (initialised refused False True)) < 0
   \<and> warnings (trace (fst (DoLoad refused True (initialised refused False True)))) =
       [Warning ''Error connecting to 127.0.0.1: Connection refused'']
   \<and> retry (initialised all_ok False True)
   \<and> 0 \<le> sock (initialised all_ok False True)
   \<and> write_ret (broken_pipe all_ok refused) < 0
   \<and> no_listener (recover (broken_pipe all_ok refused))
   \<and> warnings (trace (initialised all_ok False True)) = []
   \<and> warnings (trace (fst (DoWrite (\<lambda>r. r) (broken_pipe all_ok refused) ''{}''
                                  (initialised all_ok False True)))) =
       [Warning ''Error connecting to 127.0.0.1: Connection refused'']
   \<and> sock (fst (DoWrite (\<lambda>r. r) (broken_pipe all_ok refused) ''{}''
                   (initialised all_ok False True))) = - 1
   \<and> connect_ret (recover (broken_pipe all_ok refused)) < 0
   \<and> lost_connections (\<lambda>r. r) [(broken_pipe all_ok refused, ''{}''), (taken 3, ''a'')]
        (initialised all_ok False True) = 1
   \<and> length (warnings (trace (run_writes (\<lambda>r. r)
                [(broken_pipe all_ok refused, ''{}''), (taken 3, ''a'')]
                (initialised all_ok False True)))) \<le> 1"
proof -
  let ?s = "initialised refused False True"
  let ?c = "initialised all_ok False True"
  let ?ws = "[((taken 3)\<lparr>reconnect := refused\<rparr>, ''a''), (broken_pipe refused all_ok, ''b'')]"
  let ?vs = "[(broken_pipe all_ok refused, ''{}''), (taken 3, ''a'')]"
  have r: "retry ?s" "sock ?s < 0"
    by (simp_all add: initialised_refused)
  have c: "retry ?c" "0 \<le> sock ?c" "warnings (trace ?c) = []"
    by (simp_all add: initialised_plain)
  have n: "no_listener refused" "write_ret (broken_pipe all_ok refused) < 0"
    "no_listener (recover (broken_pipe all_ok refused))"
    by (simp_all add: no_listener_refused broken_pipe_fields)
  have i: "DoInit Map.empty refused (TCP ''collector'' 1337 True False [] []) = Inr (?s, True)"
    by (rule DoInit_refused)
  have d: "stays_down (\<lambda>r. r) ?ws ?s"
    by code_simp
  have l: "lost_connections (\<lambda>r. r) ?vs ?c = 1"
    by code_simp
  have e: "warnings (trace (TCP ''collector'' 1337 True False [] [])) = []"
    by (simp add: TCP_def warnings_def)
  have cw: "connect_warning refused =
      Warning ''Error connecting to 127.0.0.1: Connection refused''"
    by (simp add: connect_warning_def refused_fields)
  note A = one_warning_per_logical_attempt [OF r(1), of Map.empty refused
      "TCP ''collector'' 1337 True False [] []" True "taken 3" "\<lambda>r. r" "''a''" ?ws refused]
  note B = one_warning_per_logical_attempt [OF c(1), of Map.empty refused
      "TCP ''collector'' 1337 True False [] []" True "broken_pipe all_ok refused" "\<lambda>r. r"
      "''{}''" ?vs refused]
  have 1: "warnings (trace ?s) = [Warning ''Error connecting to 127.0.0.1: Connection refused'']"
    "sock ?s = - 1"
    using A i n(1) e cw by simp_all
  have 2: "warnings (trace (run_writes (\<lambda>r. r) ?ws ?s)) =
       [Warning ''Error connecting to 127.0.0.1: Connection refused'']"
    "sock (run_writes (\<lambda>r. r) ?ws ?s) < 0"
    "warnings (trace (fst (DoLoad refused True ?s))) =
       [Warning ''Error connecting to 127.0.0.1: Connection refused'']"
    using A r(2) d 1(1) by simp_all
  have 3: "warnings (trace (fst (DoWrite (\<lambda>r. r) (broken_pipe all_ok refused) ''{}'' ?c))) =
       [Warning ''Error connecting to 127.0.0.1: Connection refused'']"
    "sock (fst (DoWrite (\<lambda>r. r) (broken_pipe all_ok refused) ''{}'' ?c)) = - 1"
    using B c(2,3) n(2,3) cw by (simp_all add: broken_pipe_fields)
  have 4: "connect_ret (recover (broken_pipe all_ok refused)) < 0"
    using B 3(1) c(3) by simp
  have 5: "length (warnings (trace (run_writes (\<lambda>r. r) ?vs ?c))) \<le> 1"
    using B l c(3) by simp
  show ?thesis
    using r(1) i n 1 d 2 c 3 4 l 5 by simp
qed

section \<open>Failure branches of connection establishment\<close>

lemma handshake_completes_examples:
  "handshake_completes all_ok (secret_writer True)"
  "handshake_completes self_signed (secret_writer True)"
  "handshake_completes no_certificate (secret_writer True)"
  by (simp_all add: handshake_completes_def all_ok_def self_signed_def no_certificate_def
        secret_writer_def TCP_def)

lemma secret_writer_fields:
  "tls (secret_writer b) = b" "sock (secret_writer b) = - 1" "live (secret_writer b) = []"
  "trace (secret_writer b) = []" "host (secret_writer b) = ''collector''"
  "tcpport (secret_writer b) = 1337" "key (secret_writer b) = ''secret''"
  by (simp_all add: secret_writer_def TCP_def)

text \<open>
  C6. The claim: after every failure branch of DoLoad, the resolution failure among them,
  the writer is disconnected with everything acquired by the attempt released. In the
  resolution-failure branch (lines 52 to 57) DoLoad calls \<open>freeaddrinfo(addr)\<close>,
  and \<open>addr\<close> is a local pointer that was never assigned, since getaddrinfo failed:
  the call releases through an indeterminate pointer, which is undefined behaviour, for
  every writer and every positive error code. With a negative error code (glibc) the
  branch is not even entered, and DoLoad reads through the same pointer for socket() and
  frees it later. When the name resolves, every other failure branch does what the claim
  says: a DoLoad entered with \<open>sock = -1\<close> that does not end with a connected transport
  leaves \<open>sock = -1\<close>, the allocated resources exactly as before the call (descriptor
  closed, address list, TLS context, TLS session and peer certificate released), and
  commits no fault.
\<close>

theorem resolution_failure_frees_unassigned_addr:
  "DoLoad (all_ok\<lparr>getaddrinfo_ret := 8\<rparr>) False (secret_writer True) =
     (\<lparr>ssl_init = False, sock = - 1, host = ''collector'', tcpport = 1337, retry = False,
       tls = True, cert = [], key = ''secret'', ctx = Indeterminate, ssl = Indeterminate,
       formatter = Indeterminate, buffer = [], live = [], fresh = 3,
       trace = [Getaddrinfo ''collector'' 1337, Error ''Error resolving collector: Success''],
       faults = [Use_indeterminate]\<rparr>, False)
   \<and> (0 < getaddrinfo_ret ora \<longrightarrow>
          \<not> snd (DoLoad ora r s)
        \<and> sock (fst (DoLoad ora r s)) = sock s
        \<and> live (fst (DoLoad ora r s)) = live s
        \<and> faults (fst (DoLoad ora r s)) = faults s @ [Use_indeterminate])
   \<and> (getaddrinfo_ret ora < 0 \<longrightarrow>
          (\<exists>fs. faults (fst (DoLoad ora r s)) =
                  faults s @ Use_indeterminate # Use_indeterminate # fs))
   \<and> (getaddrinfo_ret ora = 0 \<and> sock s = - 1
        \<and> \<not> (snd (DoLoad ora r s) \<and> 0 \<le> sock (fst (DoLoad ora r s))) \<longrightarrow>
          sock (fst (DoLoad ora r s)) = - 1
        \<and> live (fst (DoLoad ora r s)) = live s
        \<and> faults (fst (DoLoad ora r s)) = faults s)"
proof (intro conjI impI)
  show "DoLoad (all_ok\<lparr>getaddrinfo_ret := 8\<rparr>) False (secret_writer True) =
     (\<lparr>ssl_init = False, sock = - 1, host = ''collector'', tcpport = 1337, retry = False,
       tls = True, cert = [], key = ''secret'', ctx = Indeterminate, ssl = Indeterminate,
       formatter = Indeterminate, buffer = [], live = [], fresh = 3,
       trace = [Getaddrinfo ''collector'' 1337, Error ''Error resolving collector: Success''],
       faults = [Use_indeterminate]\<rparr>, False)"
    by code_simp
next
  assume p: "0 < getaddrinfo_ret ora"
  show "\<not> snd (DoLoad ora r s)"
    "faults (fst (DoLoad ora r s)) = faults s @ [Use_indeterminate]"
    using DoLoad_resolution_branch [OF p] by simp_all
  show "sock (fst (DoLoad ora r s)) = sock s" "live (fst (DoLoad ora r s)) = live s"
    using p by (simp_all add: DoLoad_cases sock_DoLoad_connect live_DoLoad_connect)
next
  assume "getaddrinfo_ret ora < 0"
  then show "\<exists>fs. faults (fst (DoLoad ora r s)) =
                  faults s @ Use_indeterminate # Use_indeterminate # fs"
    by (rule DoLoad_negative_code)
next
  assume a: "getaddrinfo_ret ora = 0 \<and> sock s = - 1
        \<and> \<not> (snd (DoLoad ora r s) \<and> 0 \<le> sock (fst (DoLoad ora r s)))"
  show "sock (fst (DoLoad ora r s)) = - 1" "live (fst (DoLoad ora r s)) = live s"
    using DoLoad_failure_clean [of s ora r] a by simp_all
  show "faults (fst (DoLoad ora r s)) = faults s"
    using DoLoad_faultless [of ora r s] a by simp
qed

theorem resolution_failure_frees_unassigned_addr_witness:
  "0 < getaddrinfo_ret (all_ok\<lparr>getaddrinfo_ret := 8\<rparr>)
   \<and> \<not> snd (DoLoad (all_ok\<lparr>getaddrinfo_ret := 8\<rparr>) True (initialised refused False True))
   \<and> sock (fst (DoLoad (all_ok\<lparr>getaddrinfo_ret := 8\<rparr>) True (initialised refused False True))) = - 1
   \<and> live (fst (DoLoad (all_ok\<lparr>getaddrinfo_ret := 8\<rparr>) True (initialised refused False True))) =
       [Json 3]
   \<and> faults (fst (DoLoad (all_ok\<lparr>getaddrinfo_ret := 8\<rparr>) True
                    (initialised refused False True))) = [Use_indeterminate]
   \<and> getaddrinfo_ret name_not_found < 0
   \<and> (\<exists>fs. faults (fst (DoLoad name_not_found False (secret_writer True))) =
             Use_indeterminate # Use_indeterminate # fs)
   \<and> getaddrinfo_ret self_signed = 0
   \<and> sock (secret_writer True) = - 1
   \<and> \<not> (snd (DoLoad self_signed False (secret_writer True))
        \<and> 0 \<le> sock (fst (DoLoad self_signed False (secret_writer True))))
   \<and> sock (fst (DoLoad self_signed False (secret_writer True))) = - 1
   \<and> live (fst (DoLoad self_signed False (secret_writer True))) = []
   \<and> faults (fst (DoLoad self_signed False (secret_writer True))) = []"
proof -
  let ?s = "initialised refused False True"
  let ?w = "secret_writer True"
  let ?p = "all_ok\<lparr>getaddrinfo_ret := 8\<rparr>"
  have g: "0 < getaddrinfo_ret ?p" "getaddrinfo_ret name_not_found < 0"
    "getaddrinfo_ret self_signed = 0"
    by (simp_all add: name_not_found_def self_signed_def all_ok_def)
  have s: "sock ?s = - 1" "live ?s = [Json 3]" "faults ?s = []"
    by (simp_all add: initialised_refused)
  have w: "sock ?w = - 1" "live ?w = []" "faults ?w = []"
    by (simp_all add: secret_writer_def TCP_def)
  have "\<not> snd (DoLoad self_signed False ?w)"
    using DoLoad_bad_cert [of ?w self_signed False]
    by (simp add: secret_writer_fields handshake_completes_examples)
       (simp add: self_signed_def all_ok_def X509_V_OK_def)
  then have f: "\<not> (snd (DoLoad self_signed False ?w)
        \<and> 0 \<le> sock (fst (DoLoad self_signed False ?w)))"
    by simp
  have 1: "\<not> snd (DoLoad ?p True ?s)" "sock (fst (DoLoad ?p True ?s)) = - 1"
    "live (fst (DoLoad ?p True ?s)) = [Json 3]"
    "faults (fst (DoLoad ?p True ?s)) = [Use_indeterminate]"
    using resolution_failure_frees_unassigned_addr [of ?p True ?s] g(1) s by simp_all
  have 2: "\<exists>fs. faults (fst (DoLoad name_not_found False ?w)) =
             Use_indeterminate # Use_indeterminate # fs"
    using resolution_failure_frees_unassigned_addr [of name_not_found False ?w] g(2) w by simp
  have 3: "sock (fst (DoLoad self_signed False ?w)) = - 1"
    "live (fst (DoLoad self_signed False ?w)) = []"
    "faults (fst (DoLoad self_signed False ?w)) = []"
    using resolution_failure_frees_unassigned_addr [of self_signed False ?w] g(3) w f
    by simp_all
  show ?thesis
    using g w(1) f 1 2 3 by blast
qed

section \<open>Certificate verification\<close>

text \<open>
  C5. With TLS on, DoLoad ends with a connected transport only if the peer presented a
  certificate and its verification result is X509_V_OK. When the handshake completes
  and there is no peer certificate, DoLoad reports the Error "Error getting TLS
  certificate", returns false and leaves the writer disconnected; when the result is not
  X509_V_OK it reports the Error whose text ends with the verification string of that
  result, returns false and leaves the writer disconnected. Nothing is ever handed to
  the plain socket: neither by DoLoad nor by any sequence of calls of DoWrite.
\<close>

theorem tls_needs_verified_peer:
  assumes "tls s"
  shows "(snd (DoLoad ora r s) \<and> 0 \<le> sock (fst (DoLoad ora r s)) \<longrightarrow>
            peer_present ora \<and> verify_result ora = X509_V_OK)
     \<and> (handshake_completes ora s \<and> \<not> peer_present ora \<longrightarrow>
            \<not> snd (DoLoad ora r s) \<and> sock (fst (DoLoad ora r s)) = - 1
            \<and> trace (fst (DoLoad ora r s)) =
                trace s @ [Getaddrinfo (host s) (tcpport s),
                           Error ''Error getting TLS certificate''])
     \<and> (handshake_completes ora s \<and> peer_present ora \<and> verify_result ora \<noteq> X509_V_OK \<longrightarrow>
            \<not> snd (DoLoad ora r s) \<and> sock (fst (DoLoad ora r s)) = - 1
            \<and> trace (fst (DoLoad ora r s)) =
                trace s @ [Getaddrinfo (host s) (tcpport s),
                           Error (''Error verifying TLS certificate: ''
                                  @ verify_cert_error_string ora (verify_result ora))])
     \<and> cleartext (trace (fst (DoLoad ora r s))) = cleartext (trace s)
     \<and> cleartext (trace (run_writes d ws s)) = cleartext (trace s)"
proof (intro conjI impI)
  assume "snd (DoLoad ora r s) \<and> 0 \<le> sock (fst (DoLoad ora r s))"
  then show "peer_present ora" "verify_result ora = X509_V_OK"
    using DoLoad_success_tls [OF assms] by blast+
next
  assume a: "handshake_completes ora s \<and> \<not> peer_present ora"
  then show "\<not> snd (DoLoad ora r s)" "sock (fst (DoLoad ora r s)) = - 1"
    "trace (fst (DoLoad ora r s)) =
       trace s @ [Getaddrinfo (host s) (tcpport s), Error ''Error getting TLS certificate'']"
    using DoLoad_no_peer [OF assms, of ora r] by blast+
next
  assume a: "handshake_completes ora s \<and> peer_present ora \<and> verify_result ora \<noteq> X509_V_OK"
  then show "\<not> snd (DoLoad ora r s)" "sock (fst (DoLoad ora r s)) = - 1"
    "trace (fst (DoLoad ora r s)) =
       trace s @ [Getaddrinfo (host s) (tcpport s),
                  Error (''Error verifying TLS certificate: ''
                         @ verify_cert_error_string ora (verify_result ora))]"
    using DoLoad_bad_cert [OF assms, of ora r] by blast+
next
  show "cleartext (trace (fst (DoLoad ora r s))) = cleartext (trace s)"
    using assms by (rule cleartext_DoLoad)
  show "cleartext (trace (run_writes d ws s)) = cleartext (trace s)"
    using assms by (rule cleartext_run_writes)
qed

theorem tls_needs_verified_peer_witness:
  "tls (secret_writer True)
   \<and> snd (DoLoad all_ok False (secret_writer True))
   \<and> 0 \<le> sock (fst (DoLoad all_ok False (secret_writer True)))
   \<and> peer_present all_ok \<and> verify_result all_ok = X509_V_OK
   \<and> handshake_completes no_certificate (secret_writer True) \<and> \<not> peer_present no_certificate
   \<and> \<not> snd (DoLoad no_certificate False (secret_writer True))
   \<and> trace (fst (DoLoad no_certificate False (secret_writer True))) =
       [Getaddrinfo ''collector'' 1337, Error ''Error getting TLS certificate'']
   \<and> handshake_completes self_signed (secret_writer True) \<and> peer_present self_signed
   \<and> verify_result self_signed \<noteq> X509_V_OK
   \<and> \<not> snd (DoLoad self_signed False (secret_writer True))
   \<and> sock (fst (DoLoad self_signed False (secret_writer True))) = - 1
   \<and> trace (fst (DoLoad self_signed False (secret_writer True))) =
       [Getaddrinfo ''collector'' 1337,
        Error ''Error verifying TLS certificate: self signed certificate'']
   \<and> cleartext (trace (run_writes (\<lambda>r. r)
         [(broken_pipe self_signed all_ok, ''{}''), (taken 3, ''{}'')]
         (fst (DoLoad self_signed False (secret_writer True))))) = []"
proof -
  let ?s = "secret_writer True"
  let ?ws = "[(broken_pipe self_signed all_ok, ''{}''), (taken 3, ''{}'')]"
  have t: "tls ?s" "tls (fst (DoLoad self_signed False ?s))"
    by (simp_all add: secret_writer_fields)
  have ok: "snd (DoLoad all_ok False ?s)" "0 \<le> sock (fst (DoLoad all_ok False ?s))"
    by code_simp+
  have o: "peer_present self_signed" "\<not> peer_present no_certificate"
    "verify_result self_signed \<noteq> X509_V_OK"
    by (simp_all add: self_signed_def no_certificate_def all_ok_def X509_V_OK_def)
  have v: "verify_cert_error_string self_signed (verify_result self_signed) =
      ''self signed certificate''"
    by (simp add: self_signed_def all_ok_def)
  note h = handshake_completes_examples
  have 1: "peer_present all_ok \<and> verify_result all_ok = X509_V_OK"
    using tls_needs_verified_peer [OF t(1), of all_ok False "\<lambda>r. r" "[]"] ok by blast
  have 2: "\<not> snd (DoLoad no_certificate False ?s)
     \<and> trace (fst (DoLoad no_certificate False ?s)) =
         [Getaddrinfo ''collector'' 1337, Error ''Error getting TLS certificate'']"
    using tls_needs_verified_peer [OF t(1), of no_certificate False "\<lambda>r. r" "[]"] h(3) o(2)
    by (simp add: secret_writer_fields)
  have 3: "\<not> snd (DoLoad self_signed False ?s)
     \<and> sock (fst (DoLoad self_signed False ?s)) = - 1
     \<and> trace (fst (DoLoad self_signed False ?s)) =
         [Getaddrinfo ''collector'' 1337,
          Error ''Error verifying TLS certificate: self signed certificate'']"
     and 4: "cleartext (trace (fst (DoLoad self_signed False ?s))) = []"
    using tls_needs_verified_peer [OF t(1), of self_signed False "\<lambda>r. r" "[]"] h(2) o(1,3)
    by (simp_all add: secret_writer_fields v)
  have 5: "cleartext (trace (run_writes (\<lambda>r. r) ?ws (fst (DoLoad self_signed False ?s)))) = []"
    using tls_needs_verified_peer [OF t(2), of all_ok False "\<lambda>r. r" ?ws] 4
    by simp
  show ?thesis
    using t(1) ok o h(2,3) 1 2 3 5 by blast
qed

section \<open>Sending a record\<close>

lemma trace_DoLoad_tls_ext: "\<exists>rest. trace (fst (DoLoad_tls ora s)) = trace s @ rest"
  by (simp add: DoLoad_tls_def wrapper_defs Let_def split_beta)

lemma trace_DoLoad_key_ext: "\<exists>rest. trace (fst (DoLoad_key ora s)) = trace s @ rest"
  by (simp add: DoLoad_key_def wrapper_defs Let_def split_beta)

lemma trace_DoLoad_ext:
  "\<exists>rest. trace (fst (DoLoad ora r s)) = trace s @ Getaddrinfo (host s) (tcpport s) # rest"
proof -
  let ?c = "fst (DoLoad_connect ora r s)"
  let ?t = "fst (DoLoad_tls ora ?c)"
  obtain r0 where c: "trace ?c = trace s @ Getaddrinfo (host s) (tcpport s) # r0"
    using trace_DoLoad_connect [of ora r s] by blast
  obtain r1 where t: "trace ?t = trace ?c @ r1"
    using trace_DoLoad_tls_ext by blast
  obtain r2 where k2: "trace (fst (DoLoad_key ora ?t)) = trace ?t @ r2"
    using trace_DoLoad_key_ext by blast
  obtain r3 where k3: "trace (fst (DoLoad_key ora ?c)) = trace ?c @ r3"
    using trace_DoLoad_key_ext by blast
  show ?thesis
    by (simp add: DoLoad_cases c t k2 k3)
qed

lemma taken_fields:
  "reconnect (taken n) = all_ok" "recover (taken n) = all_ok" "write_ret (taken n) = n"
  by (simp_all add: taken_def)

lemma live_DoUnload_without:
  "live (fst (DoUnload s)) =
     (let rs = (if tls s then without Ssl_ctx (ctx s) (without Ssl_session (ssl s) (live s))
                else live s)
      in if 0 \<le> sock s then remove1 (Fd (nat (sock s))) rs else rs)"
  by (simp add: live_DoUnload wrapper_defs without_def Let_def split: ptr.splits)

lemma transmissions_record_event [simp]:
  "transmissions [record_event d wa row s] = [record_event d wa row s]"
  by (simp add: record_event_def)

lemma DoWrite_failed_trace:
  assumes "0 \<le> sock s" and n: "write_ret wa < 0"
  shows "\<exists>rest. trace (fst (DoWrite d wa row s)) =
             trace s @ record_event d wa row s #
               (if retry s then Getaddrinfo (host s) (tcpport s) else send_error wa s) # rest"
proof (cases "retry s")
  case False
  then show ?thesis
    using assms DoWrite_send_defunct(2) [OF n False, of d row]
    by (simp add: DoWrite_connected)
next
  case True
  obtain u where u: "DoWrite_send d wa row s =
      (fst (DoLoad (recover wa) DoLoad_default_is_retry u), True)"
    "trace u = trace s @ [record_event d wa row s]"
    "host u = host s" "tcpport u = tcpport s"
    using DoWrite_send_recover [OF n True, of d row] by blast
  obtain rest where "trace (fst (DoLoad (recover wa) DoLoad_default_is_retry u)) =
      trace u @ Getaddrinfo (host u) (tcpport u) # rest"
    using trace_DoLoad_ext by blast
  then show ?thesis
    using assms True u by (simp add: DoWrite_connected)
qed

lemma plain_bytes_append [simp]: "plain_bytes (xs @ ys) = plain_bytes xs @ plain_bytes ys"
  by (simp add: plain_bytes_def)

lemma plain_bytes_simps [simp]:
  "plain_bytes [] = []"
  "plain_bytes (Warning m # tr) = plain_bytes tr"
  "plain_bytes (Error m # tr) = plain_bytes tr"
  "plain_bytes (Getaddrinfo h p # tr) = plain_bytes tr"
  "plain_bytes (Send fd b n # tr) = take (nat n) b @ plain_bytes tr"
  "plain_bytes (SSL_write q b n # tr) = plain_bytes tr"
  by (simp_all add: plain_bytes_def)

lemma trace_DoLoad_key_plain:
  "\<not> tls s \<Longrightarrow> trace (fst (DoLoad_key ora s)) =
     trace s @ (if key s = [] then []
                else Send (sock s) (key s) (key_write_ret ora) #
                     (if key_write_ret ora < 0
                      then [Error (''Error sending data: '' @ strerror_errno ora)] else []))"
  by (simp add: DoLoad_key_def wrapper_defs Let_def split_beta)

lemma snd_DoLoad_key_plain:
  "\<not> tls s \<Longrightarrow> snd (DoLoad_key ora s) = (key s = [] \<or> \<not> key_write_ret ora < 0)"
  by (simp add: DoLoad_key_def wrapper_defs Let_def split_beta)

lemma DoLoad_plain_established:
  assumes "\<not> tls s" and "sock s < 0" and "0 \<le> sock (fst (DoLoad ora r s))"
  shows "trace (fst (DoLoad ora r s)) =
           trace s @ Getaddrinfo (host s) (tcpport s) #
             (if key s = [] then []
              else [Send (sock (fst (DoLoad ora r s))) (key s) (key_write_ret ora)])"
proof -
  let ?c = "fst (DoLoad_connect ora r s)"
  have through: "\<not> (0 < getaddrinfo_ret ora \<or> \<not> socket_ok ora)" "\<not> connect_ret ora < 0"
    using assms by (auto simp: DoLoad_cases sock_DoLoad_connect split: if_splits)
  then have eq: "DoLoad ora r s = DoLoad_key ora ?c"
    using assms(1) by (simp add: DoLoad_cases)
  have ok: "snd (DoLoad_key ora ?c)"
    using assms(3) by (simp add: eq sock_DoLoad_key split: if_splits)
  then have k: "key s = [] \<or> \<not> key_write_ret ora < 0"
    using assms(1) by (simp add: snd_DoLoad_key_plain)
  have sk: "sock (fst (DoLoad_key ora ?c)) = sock ?c"
    using ok by (simp add: sock_DoLoad_key)
  show ?thesis
    using assms(1) through k
    by (auto simp: eq sk trace_DoLoad_key_plain trace_DoLoad_connect)
qed

lemma DoWrite_reconnected:
  assumes "sock s < 0" and "retry s" and "0 \<le> sock (fst (DoLoad (reconnect wa) True s))"
  shows "DoWrite d wa row s = DoWrite_send d wa row (fst (DoLoad (reconnect wa) True s))"
  using assms by (simp add: DoWrite_def split_beta)

lemma keyed_down_eq:
  "keyed_down =
     \<lparr>ssl_init = False, sock = - 1, host = ''collector'', tcpport = 1337, retry = True,
      tls = False, cert = [], key = ''secret'', ctx = Indeterminate, ssl = Indeterminate,
      formatter = Ptr 3, buffer = [], live = [Json 3], fresh = 6,
      trace = [Getaddrinfo ''collector'' 1337,
               Warning ''Error connecting to 127.0.0.1: Connection refused''],
      faults = []\<rparr>"
  by code_simp

text \<open>
  C7, as the claim states it: with retry off, a send failure leaves the writer defunct
  until it is initialised again from outside. DoWrite does nothing of the kind: it
  reports the error and returns false with the socket still open and connected. Here the
  send is interrupted by a signal; the next call of DoWrite on the same writer sends on
  the same descriptor 5 and returns true.
\<close>

theorem writer_sends_again_after_failed_send:
  "DoWrite (\<lambda>r. r) interrupted ''{}'' (initialised all_ok False False) =
     (\<lparr>ssl_init = False, sock = 5, host = ''collector'', tcpport = 1337, retry = False,
       tls = False, cert = [], key = [], ctx = Indeterminate, ssl = Indeterminate,
       formatter = Ptr 3, buffer = ''{}'' @ [LF], live = [Fd 5, Json 3], fresh = 6,
       trace = [Getaddrinfo ''collector'' 1337, Send 5 (''{}'' @ [LF]) (- 1),
                Error ''Error sending data: Interrupted system call''],
       faults = []\<rparr>, False)
   \<and> DoWrite (\<lambda>r. r) (taken 3) ''{}''
       \<lparr>ssl_init = False, sock = 5, host = ''collector'', tcpport = 1337, retry = False,
        tls = False, cert = [], key = [], ctx = Indeterminate, ssl = Indeterminate,
        formatter = Ptr 3, buffer = ''{}'' @ [LF], live = [Fd 5, Json 3], fresh = 6,
        trace = [Getaddrinfo ''collector'' 1337, Send 5 (''{}'' @ [LF]) (- 1),
                 Error ''Error sending data: Interrupted system call''],
        faults = []\<rparr> =
     (\<lparr>ssl_init = False, sock = 5, host = ''collector'', tcpport = 1337, retry = False,
       tls = False, cert = [], key = [], ctx = Indeterminate, ssl = Indeterminate,
       formatter = Ptr 3, buffer = ''{}'' @ [LF], live = [Fd 5, Json 3], fresh = 6,
       trace = [Getaddrinfo ''collector'' 1337, Send 5 (''{}'' @ [LF]) (- 1),
                Error ''Error sending data: Interrupted system call'',
                Send 5 (''{}'' @ [LF]) 3],
       faults = []\<rparr>, True)"
  by code_simp

text \<open>
  C7, amended. A connected writer whose send (or SSL_write) returns a negative value.
  With retry on, DoWrite returns true, and its final state is that of a run of
  \<open>DoLoad()\<close> started in the same call from a writer \<open>u\<close> that is torn down
  (\<open>sock = -1\<close>, the descriptor closed and, with TLS, session and context released) and
  whose trace holds the record exactly once; whatever is transmitted after the record is
  at most one message, the key line of the new connection, not the record. With retry
  off, DoWrite reports the error of the transport and returns false, and that is all:
  socket, session, context and allocated resources are as before the call, so the writer
  is still connected, and a later call of DoWrite hands its record to the same transport
  again and returns true when that send is accepted.
\<close>

theorem send_failure_handling:
  assumes "0 \<le> sock s" and "write_ret wa < 0"
  shows "(retry s \<longrightarrow>
            snd (DoWrite d wa row s)
          \<and> (\<exists>u. fst (DoWrite d wa row s) = fst (DoLoad (recover wa) DoLoad_default_is_retry u)
                 \<and> trace u = trace s @ [record_event d wa row s]
                 \<and> sock u = - 1
                 \<and> live u = remove1 (Fd (nat (sock s)))
                     (if tls s then without Ssl_ctx (ctx s) (without Ssl_session (ssl s) (live s))
                      else live s)
                 \<and> host u = host s \<and> tcpport u = tcpport s \<and> retry u = retry s
                 \<and> tls u = tls s \<and> cert u = cert s \<and> key u = key s)
          \<and> (\<exists>ks. transmissions (trace (fst (DoWrite d wa row s))) =
                      transmissions (trace s) @ record_event d wa row s # ks
                 \<and> length ks \<le> 1
                 \<and> (\<forall>e \<in> set ks. payload e = (if tls s then key s @ [LF] else key s))))
     \<and> (\<not> retry s \<longrightarrow>
            \<not> snd (DoWrite d wa row s)
          \<and> trace (fst (DoWrite d wa row s)) =
              trace s @ [record_event d wa row s, send_error wa s]
          \<and> sock (fst (DoWrite d wa row s)) = sock s
          \<and> live (fst (DoWrite d wa row s)) = live s
          \<and> ssl (fst (DoWrite d wa row s)) = ssl s
          \<and> ctx (fst (DoWrite d wa row s)) = ctx s
          \<and> (0 \<le> write_ret wa' \<longrightarrow>
                snd (DoWrite d wa' row' (fst (DoWrite d wa row s)))
              \<and> trace (fst (DoWrite d wa' row' (fst (DoWrite d wa row s)))) =
                  trace s @ [record_event d wa row s, send_error wa s,
                             record_event d wa' row' s]))"
proof (intro conjI impI)
  assume r: "retry s"
  obtain u where u: "DoWrite_send d wa row s =
        (fst (DoLoad (recover wa) DoLoad_default_is_retry u), True)"
      "trace u = trace s @ [record_event d wa row s]" "sock u = - 1"
      "live u = live (fst (DoUnload s))"
      "host u = host s" "tcpport u = tcpport s" "retry u = retry s" "tls u = tls s"
      "cert u = cert s" "key u = key s"
    using DoWrite_send_recover [OF assms(2) r, of d row] by blast
  show "snd (DoWrite d wa row s)"
    using assms(1) u(1) by (simp add: DoWrite_connected)
  have lu: "live u = remove1 (Fd (nat (sock s)))
                     (if tls s then without Ssl_ctx (ctx s) (without Ssl_session (ssl s) (live s))
                      else live s)"
    using assms(1) by (simp add: u(4) live_DoUnload_without)
  show "\<exists>u. fst (DoWrite d wa row s) = fst (DoLoad (recover wa) DoLoad_default_is_retry u)
                 \<and> trace u = trace s @ [record_event d wa row s]
                 \<and> sock u = - 1
                 \<and> live u = remove1 (Fd (nat (sock s)))
                     (if tls s then without Ssl_ctx (ctx s) (without Ssl_session (ssl s) (live s))
                      else live s)
                 \<and> host u = host s \<and> tcpport u = tcpport s \<and> retry u = retry s
                 \<and> tls u = tls s \<and> cert u = cert s \<and> key u = key s"
    using assms(1) u lu by (intro exI [of _ u]) (simp add: DoWrite_connected)
  obtain ks where ks: "transmissions (trace (fst (DoLoad (recover wa) DoLoad_default_is_retry u))) =
        transmissions (trace u) @ ks" "length ks \<le> 1"
      "\<forall>e \<in> set ks. payload e = (if tls u then key u @ [LF] else key u)"
    using transmissions_DoLoad by blast
  show "\<exists>ks. transmissions (trace (fst (DoWrite d wa row s))) =
                      transmissions (trace s) @ record_event d wa row s # ks
                 \<and> length ks \<le> 1
                 \<and> (\<forall>e \<in> set ks. payload e = (if tls s then key s @ [LF] else key s))"
    using assms(1) u ks by (intro exI [of _ ks]) (simp add: DoWrite_connected)
next
  assume off: "\<not> retry s"
  let ?s' = "fst (DoWrite d wa row s)"
  note f = DoWrite_send_defunct [OF assms(2) off, of d row]
  show now: "\<not> snd (DoWrite d wa row s)"
    "trace ?s' = trace s @ [record_event d wa row s, send_error wa s]"
    "sock ?s' = sock s"
    "live ?s' = live s"
    "ssl ?s' = ssl s"
    "ctx ?s' = ctx s"
    using assms(1) f by (simp_all add: DoWrite_connected)
  assume ok: "0 \<le> write_ret wa'"
  have same: "record_event d wa' row' ?s' = record_event d wa' row' s"
    using now by (simp add: record_event_def)
  note a = DoWrite_send_accepted [OF ok, of d row' ?s']
  show "snd (DoWrite d wa' row' ?s')"
    "trace (fst (DoWrite d wa' row' ?s')) =
       trace s @ [record_event d wa row s, send_error wa s, record_event d wa' row' s]"
    using assms(1) now a same by (simp_all add: DoWrite_connected)
qed

theorem send_failure_handling_witness:
  "0 \<le> sock (initialised all_ok True True) \<and> write_ret (broken_pipe all_ok refused) < 0
   \<and> retry (initialised all_ok True True)
   \<and> snd (DoWrite (\<lambda>r. r) (broken_pipe all_ok refused) ''{}'' (initialised all_ok True True))
   \<and> (\<exists>u. fst (DoWrite (\<lambda>r. r) (broken_pipe all_ok refused) ''{}''
                 (initialised all_ok True True)) =
             fst (DoLoad refused DoLoad_default_is_retry u)
          \<and> trace u = [Getaddrinfo ''collector'' 1337, SSL_write (Ptr 7) (''{}'' @ [LF]) (- 1)]
          \<and> sock u = - 1 \<and> live u = [Json 3])
   \<and> 0 \<le> sock (initialised all_ok False False) \<and> write_ret (broken_pipe all_ok all_ok) < 0
   \<and> \<not> retry (initialised all_ok False False)
   \<and> \<not> snd (DoWrite (\<lambda>r. r) (broken_pipe all_ok all_ok) ''{}'' (initialised all_ok False False))
   \<and> trace (fst (DoWrite (\<lambda>r. r) (broken_pipe all_ok all_ok) ''{}''
                    (initialised all_ok False False))) =
       [Getaddrinfo ''collector'' 1337, Send 5 (''{}'' @ [LF]) (- 1),
        Error ''Error sending data: Broken pipe'']
   \<and> sock (fst (DoWrite (\<lambda>r. r) (broken_pipe all_ok all_ok) ''{}''
                   (initialised all_ok False False))) = 5
   \<and> live (fst (DoWrite (\<lambda>r. r) (broken_pipe all_ok all_ok) ''{}''
                   (initialised all_ok False False))) = [Fd 5, Json 3]
   \<and> 0 \<le> write_ret (taken 3)
   \<and> snd (DoWrite (\<lambda>r. r) (taken 3) ''{}''
            (fst (DoWrite (\<lambda>r. r) (broken_pipe all_ok all_ok) ''{}''
                    (initialised all_ok False False))))
   \<and> trace (fst (DoWrite (\<lambda>r. r) (taken 3) ''{}''
                  (fst (DoWrite (\<lambda>r. r) (broken_pipe all_ok all_ok) ''{}''
                          (initialised all_ok False False))))) =
       [Getaddrinfo ''collector'' 1337, Send 5 (''{}'' @ [LF]) (- 1),
        Error ''Error sending data: Broken pipe'', Send 5 (''{}'' @ [LF]) 3]"
proof -
  let ?t = "initialised all_ok True True"
  let ?p = "initialised all_ok False False"
  have t: "0 \<le> sock ?t" "retry ?t"
    by (simp_all add: initialised_tls)
  have p: "0 \<le> sock ?p" "\<not> retry ?p"
    by (simp_all add: initialised_plain)
  have n: "write_ret (broken_pipe all_ok refused) < 0" "write_ret (broken_pipe all_ok all_ok) < 0"
    "0 \<le> write_ret (taken 3)"
    by (simp_all add: broken_pipe_fields taken_fields)
  have 1: "snd (DoWrite (\<lambda>r. r) (broken_pipe all_ok refused) ''{}'' ?t)
       \<and> (\<exists>u. fst (DoWrite (\<lambda>r. r) (broken_pipe all_ok refused) ''{}'' ?t) =
             fst (DoLoad refused DoLoad_default_is_retry u)
          \<and> trace u = [Getaddrinfo ''collector'' 1337, SSL_write (Ptr 7) (''{}'' @ [LF]) (- 1)]
          \<and> sock u = - 1 \<and> live u = [Json 3])"
    using send_failure_handling [OF t(1) n(1), of "\<lambda>r. r" "''{}''"] t(2)
    by (simp add: initialised_tls record_event_def without_def broken_pipe_fields) blast
  have 2: "\<not> snd (DoWrite (\<lambda>r. r) (broken_pipe all_ok all_ok) ''{}'' ?p)
       \<and> trace (fst (DoWrite (\<lambda>r. r) (broken_pipe all_ok all_ok) ''{}'' ?p)) =
           [Getaddrinfo ''collector'' 1337, Send 5 (''{}'' @ [LF]) (- 1),
            Error ''Error sending data: Broken pipe'']
       \<and> sock (fst (DoWrite (\<lambda>r. r) (broken_pipe all_ok all_ok) ''{}'' ?p)) = 5
       \<and> live (fst (DoWrite (\<lambda>r. r) (broken_pipe all_ok all_ok) ''{}'' ?p)) = [Fd 5, Json 3]
       \<and> snd (DoWrite (\<lambda>r. r) (taken 3) ''{}''
            (fst (DoWrite (\<lambda>r. r) (broken_pipe all_ok all_ok) ''{}'' ?p)))
       \<and> trace (fst (DoWrite (\<lambda>r. r) (taken 3) ''{}''
                  (fst (DoWrite (\<lambda>r. r) (broken_pipe all_ok all_ok) ''{}'' ?p)))) =
           [Getaddrinfo ''collector'' 1337, Send 5 (''{}'' @ [LF]) (- 1),
            Error ''Error sending data: Broken pipe'', Send 5 (''{}'' @ [LF]) 3]"
    using send_failure_handling [OF p(1) n(2), of "\<lambda>r. r" "''{}''" "taken 3" "''{}''"]
      p(2) n(3)
    by (simp add: initialised_plain record_event_def send_error_def broken_pipe_def taken_fields)
  show ?thesis
    using t p n 1 2 by blast
qed

text \<open>
  C8, as the claim states it: the bytes sent in a call of Write over a plain connection
  are exactly the serialization of the record followed by one line feed, nothing else.
  Two runs in which DoWrite returns true show otherwise. In the first, send accepts two
  of the three bytes of the record \<open>{}\<close> with its line feed, and DoWrite sends no
  remainder: the line feed never goes out. In the second, the writer has the key
  \<open>secret\<close> and is disconnected; the call of DoWrite establishes the plain connection
  itself, and the bytes that go out in that call are the key followed by the record.
\<close>

theorem short_send_and_key_precede:
  "snd (DoWrite (\<lambda>r. r) (taken 2) ''{}'' (initialised all_ok False True))
   \<and> plain_bytes (trace (initialised all_ok False True)) = []
   \<and> plain_bytes (trace (fst (DoWrite (\<lambda>r. r) (taken 2) ''{}''
                                (initialised all_ok False True)))) = ''{}''
   \<and> ''{}'' \<noteq> ''{}'' @ [LF]
   \<and> snd (DoWrite (\<lambda>r. r) ((taken 3)\<lparr>reconnect := all_ok\<lparr>key_write_ret := 6\<rparr>\<rparr>) ''{}''
            keyed_down)
   \<and> plain_bytes (trace keyed_down) = []
   \<and> plain_bytes (trace (fst (DoWrite (\<lambda>r. r)
                                ((taken 3)\<lparr>reconnect := all_ok\<lparr>key_write_ret := 6\<rparr>\<rparr>) ''{}''
                                keyed_down))) = ''secret{}'' @ [LF]"
  by code_simp

text \<open>
  C8, amended. On a plain writer, DoWrite hands the record to send once, as exactly the
  formatter's bytes for the record followed by one line feed, whatever the buffer held
  before. On a connected writer this is the first event of the call; when send does not
  fail it is the only one, DoWrite returns true, the buffer holds those bytes, and the
  bytes that went out in the call are the prefix of them that send accepted, all of them
  only if send returned their number. On a disconnected writer with retry on whose
  reconnection succeeds, the call first resolves the host and, if a key is configured,
  sends the key on the new connection, and then hands over the record in the same way.
\<close>

theorem plain_record_bytes:
  assumes "\<not> tls s"
  shows "(0 \<le> sock s \<longrightarrow>
            (\<exists>rest. trace (fst (DoWrite d wa row s)) =
                      trace s @ Send (sock s) (d row @ [LF]) (write_ret wa) # rest
                 \<and> (0 \<le> write_ret wa \<longrightarrow>
                       rest = [] \<and> snd (DoWrite d wa row s)
                       \<and> buffer (fst (DoWrite d wa row s)) = d row @ [LF]))
          \<and> (0 \<le> write_ret wa \<longrightarrow>
                plain_bytes (trace (fst (DoWrite d wa row s))) =
                  plain_bytes (trace s) @ take (nat (write_ret wa)) (d row @ [LF])))
     \<and> (sock s < 0 \<and> retry s \<and> 0 \<le> sock (fst (DoLoad (reconnect wa) True s))
          \<and> 0 \<le> write_ret wa \<longrightarrow>
            snd (DoWrite d wa row s)
          \<and> trace (fst (DoWrite d wa row s)) =
              trace s @ Getaddrinfo (host s) (tcpport s) #
                (if key s = [] then []
                 else [Send (sock (fst (DoLoad (reconnect wa) True s))) (key s)
                         (key_write_ret (reconnect wa))])
                @ [Send (sock (fst (DoLoad (reconnect wa) True s))) (d row @ [LF])
                     (write_ret wa)])"
proof (intro conjI impI)
  assume c: "0 \<le> sock s"
  show "\<exists>rest. trace (fst (DoWrite d wa row s)) =
                      trace s @ Send (sock s) (d row @ [LF]) (write_ret wa) # rest
                 \<and> (0 \<le> write_ret wa \<longrightarrow>
                       rest = [] \<and> snd (DoWrite d wa row s)
                       \<and> buffer (fst (DoWrite d wa row s)) = d row @ [LF])"
  proof (cases "0 \<le> write_ret wa")
    case True
    note a = DoWrite_send_accepted [OF this, of d row s]
    show ?thesis
      using assms c a True by (simp add: DoWrite_connected record_event_def)
  next
    case False
    then have n: "write_ret wa < 0"
      by simp
    obtain rest where "trace (fst (DoWrite d wa row s)) =
             trace s @ record_event d wa row s #
               (if retry s then Getaddrinfo (host s) (tcpport s) else send_error wa s) # rest"
      using DoWrite_failed_trace [OF c n, of d row] by blast
    then show ?thesis
      using assms False by (simp add: record_event_def)
  qed
  assume "0 \<le> write_ret wa"
  note a = DoWrite_send_accepted [OF this, of d row s]
  show "plain_bytes (trace (fst (DoWrite d wa row s))) =
          plain_bytes (trace s) @ take (nat (write_ret wa)) (d row @ [LF])"
    using assms c a by (simp add: DoWrite_connected record_event_def)
next
  assume h: "sock s < 0 \<and> retry s \<and> 0 \<le> sock (fst (DoLoad (reconnect wa) True s))
          \<and> 0 \<le> write_ret wa"
  let ?s1 = "fst (DoLoad (reconnect wa) True s)"
  have eq: "DoWrite d wa row s = DoWrite_send d wa row ?s1"
    using h by (intro DoWrite_reconnected) simp_all
  have p: "\<not> tls ?s1"
    using assms by simp
  have tr: "trace ?s1 = trace s @ Getaddrinfo (host s) (tcpport s) #
             (if key s = [] then [] else [Send (sock ?s1) (key s) (key_write_ret (reconnect wa))])"
    using assms h by (intro DoLoad_plain_established) simp_all
  have w: "0 \<le> write_ret wa"
    using h by simp
  note a = DoWrite_send_accepted [OF w, of d row ?s1]
  show "snd (DoWrite d wa row s)"
    using a by (simp add: eq)
  show "trace (fst (DoWrite d wa row s)) =
              trace s @ Getaddrinfo (host s) (tcpport s) #
                (if key s = [] then []
                 else [Send (sock ?s1) (key s) (key_write_ret (reconnect wa))])
                @ [Send (sock ?s1) (d row @ [LF]) (write_ret wa)]"
    using a p by (simp add: eq tr record_event_def)
qed

theorem plain_record_bytes_witness:
  "\<not> tls ((initialised all_ok False True)\<lparr>buffer := ''stale''\<rparr>)
   \<and> 0 \<le> sock ((initialised all_ok False True)\<lparr>buffer := ''stale''\<rparr>)
   \<and> 0 \<le> write_ret (taken 3)
   \<and> trace (fst (DoWrite (\<lambda>r. r) (taken 3) ''{}''
                    ((initialised all_ok False True)\<lparr>buffer := ''stale''\<rparr>))) =
       [Getaddrinfo ''collector'' 1337, Send 5 (''{}'' @ [LF]) 3]
   \<and> snd (DoWrite (\<lambda>r. r) (taken 3) ''{}''
             ((initialised all_ok False True)\<lparr>buffer := ''stale''\<rparr>))
   \<and> buffer (fst (DoWrite (\<lambda>r. r) (taken 3) ''{}''
                     ((initialised all_ok False True)\<lparr>buffer := ''stale''\<rparr>))) = ''{}'' @ [LF]
   \<and> plain_bytes (trace (fst (DoWrite (\<lambda>r. r) (taken 3) ''{}''
                     ((initialised all_ok False True)\<lparr>buffer := ''stale''\<rparr>)))) = ''{}'' @ [LF]
   \<and> 0 \<le> write_ret (taken 2)
   \<and> plain_bytes (trace (fst (DoWrite (\<lambda>r. r) (taken 2) ''{}''
                     ((initialised all_ok False True)\<lparr>buffer := ''stale''\<rparr>)))) = ''{}''
   \<and> \<not> tls keyed_down \<and> sock keyed_down < 0 \<and> retry keyed_down
   \<and> 0 \<le> sock (fst (DoLoad (all_ok\<lparr>key_write_ret := 6\<rparr>) True keyed_down))
   \<and> snd (DoWrite (\<lambda>r. r) ((taken 3)\<lparr>reconnect := all_ok\<lparr>key_write_ret := 6\<rparr>\<rparr>) ''{}''
            keyed_down)
   \<and> trace (fst (DoWrite (\<lambda>r. r) ((taken 3)\<lparr>reconnect := all_ok\<lparr>key_write_ret := 6\<rparr>\<rparr>)
                    ''{}'' keyed_down)) =
       [Getaddrinfo ''collector'' 1337,
        Warning ''Error connecting to 127.0.0.1: Connection refused'',
        Getaddrinfo ''collector'' 1337, Send 7 ''secret'' 6, Send 7 (''{}'' @ [LF]) 3]"
proof -
  let ?s = "(initialised all_ok False True)\<lparr>buffer := ''stale''\<rparr>"
  let ?k = "all_ok\<lparr>key_write_ret := 6\<rparr>"
  let ?wa = "(taken 3)\<lparr>reconnect := ?k\<rparr>"
  have s: "\<not> tls ?s" "0 \<le> sock ?s" "sock ?s = 5" "trace ?s = [Getaddrinfo ''collector'' 1337]"
    by (simp_all add: initialised_plain)
  have w: "0 \<le> write_ret (taken 3)" "write_ret (taken 3) = 3" "0 \<le> write_ret (taken 2)"
    "write_ret (taken 2) = 2" "reconnect ?wa = ?k" "write_ret ?wa = 3"
    by (simp_all add: taken_fields taken_def)
  have k: "\<not> tls keyed_down" "sock keyed_down < 0" "retry keyed_down"
    "key keyed_down = ''secret''" "host keyed_down = ''collector''" "tcpport keyed_down = 1337"
    "trace keyed_down = [Getaddrinfo ''collector'' 1337,
        Warning ''Error connecting to 127.0.0.1: Connection refused'']"
    by (simp_all add: keyed_down_eq)
  have up: "sock (fst (DoLoad ?k True keyed_down)) = 7"
    by code_simp
  have kk: "key_write_ret ?k = 6"
    by simp
  have 1: "trace (fst (DoWrite (\<lambda>r. r) (taken 3) ''{}'' ?s)) =
             [Getaddrinfo ''collector'' 1337, Send 5 (''{}'' @ [LF]) 3]
      \<and> snd (DoWrite (\<lambda>r. r) (taken 3) ''{}'' ?s)
      \<and> buffer (fst (DoWrite (\<lambda>r. r) (taken 3) ''{}'' ?s)) = ''{}'' @ [LF]
      \<and> plain_bytes (trace (fst (DoWrite (\<lambda>r. r) (taken 3) ''{}'' ?s))) = ''{}'' @ [LF]"
    using plain_record_bytes [OF s(1), of "\<lambda>r. r" "taken 3" "''{}''"] s(2-4) w(1,2)
    by auto
  have 2: "plain_bytes (trace (fst (DoWrite (\<lambda>r. r) (taken 2) ''{}'' ?s))) = ''{}''"
    using plain_record_bytes [OF s(1), of "\<lambda>r. r" "taken 2" "''{}''"] s(2-4) w(3,4)
    by auto
  have 3: "snd (DoWrite (\<lambda>r. r) ?wa ''{}'' keyed_down)
      \<and> trace (fst (DoWrite (\<lambda>r. r) ?wa ''{}'' keyed_down)) =
       [Getaddrinfo ''collector'' 1337,
        Warning ''Error connecting to 127.0.0.1: Connection refused'',
        Getaddrinfo ''collector'' 1337, Send 7 ''secret'' 6, Send 7 (''{}'' @ [LF]) 3]"
    using plain_record_bytes [OF k(1), of "\<lambda>r. r" ?wa "''{}''"] k(2-7) up
    by (simp add: w(5,6) kk)
  show ?thesis
    using s(1,2) w(1,3) k(1-3) up 1 2 3 by simp
qed

text \<open>
  C10. On a connected writer, plain or TLS, every non-negative return value of the send
  (zero or fewer bytes than the buffer holds included) makes DoWrite return true after
  that single call: nothing is sent again, and socket, session, context and allocated
  resources are unchanged. A negative return value is followed by the failure
  handling: a reconnection attempt when retry is on, the error report otherwise.
\<close>

theorem nonnegative_send_result_is_success:
  assumes "0 \<le> sock s"
  shows "(0 \<le> write_ret wa \<longrightarrow>
            snd (DoWrite d wa row s)
          \<and> trace (fst (DoWrite d wa row s)) = trace s @ [record_event d wa row s]
          \<and> sock (fst (DoWrite d wa row s)) = sock s
          \<and> live (fst (DoWrite d wa row s)) = live s
          \<and> ssl (fst (DoWrite d wa row s)) = ssl s
          \<and> ctx (fst (DoWrite d wa row s)) = ctx s)
     \<and> (write_ret wa < 0 \<longrightarrow>
          (\<exists>rest. trace (fst (DoWrite d wa row s)) =
             trace s @ record_event d wa row s #
               (if retry s then Getaddrinfo (host s) (tcpport s) else send_error wa s) # rest))"
proof (intro conjI impI)
  assume "0 \<le> write_ret wa"
  note a = DoWrite_send_accepted [OF this, of d row s]
  show "snd (DoWrite d wa row s)"
    "trace (fst (DoWrite d wa row s)) = trace s @ [record_event d wa row s]"
    "sock (fst (DoWrite d wa row s)) = sock s"
    "live (fst (DoWrite d wa row s)) = live s"
    "ssl (fst (DoWrite d wa row s)) = ssl s"
    "ctx (fst (DoWrite d wa row s)) = ctx s"
    using assms a by (simp_all add: DoWrite_connected)
next
  assume "write_ret wa < 0"
  then show "\<exists>rest. trace (fst (DoWrite d wa row s)) =
             trace s @ record_event d wa row s #
               (if retry s then Getaddrinfo (host s) (tcpport s) else send_error wa s) # rest"
    using assms by (intro DoWrite_failed_trace)
qed

theorem nonnegative_send_result_is_success_witness:
  "0 \<le> sock (initialised all_ok False True) \<and> 0 \<le> write_ret (taken 0)
   \<and> snd (DoWrite (\<lambda>r. r) (taken 0) ''{}'' (initialised all_ok False True))
   \<and> trace (fst (DoWrite (\<lambda>r. r) (taken 0) ''{}'' (initialised all_ok False True))) =
       [Getaddrinfo ''collector'' 1337, Send 5 (''{}'' @ [LF]) 0]
   \<and> sock (fst (DoWrite (\<lambda>r. r) (taken 0) ''{}'' (initialised all_ok False True))) = 5
   \<and> live (fst (DoWrite (\<lambda>r. r) (taken 0) ''{}'' (initialised all_ok False True))) =
       [Fd 5, Json 3]
   \<and> 0 \<le> sock (initialised all_ok True True) \<and> 0 \<le> write_ret (taken 1)
   \<and> snd (DoWrite (\<lambda>r. r) (taken 1) ''{}'' (initialised all_ok True True))
   \<and> trace (fst (DoWrite (\<lambda>r. r) (taken 1) ''{}'' (initialised all_ok True True))) =
       [Getaddrinfo ''collector'' 1337, SSL_write (Ptr 7) (''{}'' @ [LF]) 1]
   \<and> live (fst (DoWrite (\<lambda>r. r) (taken 1) ''{}'' (initialised all_ok True True))) =
       [Ssl_session 7, Ssl_ctx 6, Fd 5, Json 3]
   \<and> write_ret (broken_pipe all_ok all_ok) < 0
   \<and> (\<exists>rest. trace (fst (DoWrite (\<lambda>r. r) (broken_pipe all_ok all_ok) ''{}''
                            (initialised all_ok False True))) =
         [Getaddrinfo ''collector'' 1337, Send 5 (''{}'' @ [LF]) (- 1),
          Getaddrinfo ''collector'' 1337] @ rest)"
proof -
  let ?p = "initialised all_ok False True"
  let ?t = "initialised all_ok True True"
  have s: "0 \<le> sock ?p" "0 \<le> sock ?t"
    by (simp_all add: initialised_plain initialised_tls)
  have w: "0 \<le> write_ret (taken 0)" "0 \<le> write_ret (taken 1)"
    "write_ret (broken_pipe all_ok all_ok) < 0"
    by (simp_all add: taken_fields broken_pipe_fields)
  have 1: "snd (DoWrite (\<lambda>r. r) (taken 0) ''{}'' ?p)
     \<and> trace (fst (DoWrite (\<lambda>r. r) (taken 0) ''{}'' ?p)) =
         [Getaddrinfo ''collector'' 1337, Send 5 (''{}'' @ [LF]) 0]
     \<and> sock (fst (DoWrite (\<lambda>r. r) (taken 0) ''{}'' ?p)) = 5
     \<and> live (fst (DoWrite (\<lambda>r. r) (taken 0) ''{}'' ?p)) = [Fd 5, Json 3]"
    using nonnegative_send_result_is_success [OF s(1), of "taken 0" "\<lambda>r. r" "''{}''"] w(1)
    by (simp add: initialised_plain record_event_def taken_fields)
  have 2: "snd (DoWrite (\<lambda>r. r) (taken 1) ''{}'' ?t)
     \<and> trace (fst (DoWrite (\<lambda>r. r) (taken 1) ''{}'' ?t)) =
         [Getaddrinfo ''collector'' 1337, SSL_write (Ptr 7) (''{}'' @ [LF]) 1]
     \<and> live (fst (DoWrite (\<lambda>r. r) (taken 1) ''{}'' ?t)) =
         [Ssl_session 7, Ssl_ctx 6, Fd 5, Json 3]"
    using nonnegative_send_result_is_success [OF s(2), of "taken 1" "\<lambda>r. r" "''{}''"] w(2)
    by (simp add: initialised_tls record_event_def taken_fields)
  have 3: "\<exists>rest. trace (fst (DoWrite (\<lambda>r. r) (broken_pipe all_ok all_ok) ''{}'' ?p)) =
         [Getaddrinfo ''collector'' 1337, Send 5 (''{}'' @ [LF]) (- 1),
          Getaddrinfo ''collector'' 1337] @ rest"
    using nonnegative_send_result_is_success [OF s(1), of "broken_pipe all_ok all_ok"
        "\<lambda>r. r" "''{}''"] w(3)
    by (simp add: initialised_plain record_event_def broken_pipe_fields)
  show ?thesis
    using s w 1 2 3 by blast
qed

end
